theory Spec2Isabelle
  imports Complex_Main
begin

section \<open>BookNest: the verification-gated review workflow\<close>

text \<open>
  The server of BookNest (\<^verbatim>\<open>server/routes.ts\<close>, \<^verbatim>\<open>server/mongoStorage.ts\<close>,
  \<^verbatim>\<open>shared/schema.ts\<close>) is embedded as pure functions over an explicit storage
  record and an explicit session record.

  Boundaries of the model:
  \<^item> a MongoDB collection is the list of its documents in insertion order;
    \<^verbatim>\<open>findOne\<close> and \<^verbatim>\<open>deleteOne\<close> act on the first match, \<^verbatim>\<open>deleteMany\<close> on all;
  \<^item> the database is connected, so no storage call throws (the handlers' 500 branches
    are not reachable in the model);
  \<^item> the \<^verbatim>\<open>:id\<close> path segment is a decimal integer;
  \<^item> numbers sent by clients and stored ratings are integers, and the sum of the ratings
    of a book stays below \<open>2\<^sup>5\<^sup>3\<close> in magnitude, where the addition of JavaScript
    numbers is exact;
  \<^item> a JavaScript number is the rational it denotes; the quotient of two such integers is
    the binary64 number nearest to the exact quotient, ties to the even mantissa, and
    \<^verbatim>\<open>0 / 0\<close> is \<^verbatim>\<open>NaN\<close>;
  \<^item> \<^verbatim>\<open>new Date()\<close> is a timestamp handed in by the caller.
\<close>

subsection \<open>Documents (shared/schema.ts)\<close>

datatype jsnum = Num rat | NaN | PosInfinity | NegInfinity

record User =
  user_id :: int
  user_name :: string
  user_email :: string
  user_password :: string
  user_isAdmin :: bool
  user_isActive :: bool
  user_joinedAt :: nat

record InsertUser =
  iu_name :: string
  iu_email :: string
  iu_password :: string
  iu_isAdmin :: "bool option"

record Book =
  book_id :: int
  book_title :: string
  book_author :: string
  book_publisher :: "string option"
  book_publishedDate :: "string option"
  book_description :: string
  book_category :: string
  book_isbn :: "string option"
  book_coverImage :: "string option"
  book_addedAt :: nat
  book_averageRating :: jsnum
  book_totalReviews :: nat

record VerificationQuestion =
  q_id :: int
  q_bookId :: int
  q_question :: string
  q_options :: "string list"
  q_correctOptionIndex :: int

record Review =
  review_id :: int
  review_bookId :: int
  review_userId :: int
  review_rating :: int
  review_content :: string
  review_createdAt :: nat

record InsertReview =
  ir_bookId :: int
  ir_userId :: int
  ir_rating :: int
  ir_content :: string

record ReadingList =
  rl_id :: int
  rl_userId :: int
  rl_bookId :: int
  rl_addedAt :: nat
  rl_progress :: int

record LikedBook =
  lb_id :: int
  lb_userId :: int
  lb_bookId :: int
  lb_likedAt :: nat

subsection \<open>The storage and the collection primitives (server/mongoStorage.ts)\<close>

record Storage =
  users :: "User list"
  books :: "Book list"
  verificationQuestions :: "VerificationQuestion list"
  reviews :: "Review list"
  readingLists :: "ReadingList list"
  likedBooks :: "LikedBook list"

text \<open>\<^verbatim>\<open>collection.findOne(query)\<close>: the first matching document.\<close>

fun findOne :: "('a \<Rightarrow> bool) \<Rightarrow> 'a list \<Rightarrow> 'a option" where
  "findOne p [] = None"
| "findOne p (x # xs) = (if p x then Some x else findOne p xs)"

text \<open>\<^verbatim>\<open>collection.deleteOne(query)\<close>: the collection without its first match.\<close>

fun deleteOne :: "('a \<Rightarrow> bool) \<Rightarrow> 'a list \<Rightarrow> 'a list" where
  "deleteOne p [] = []"
| "deleteOne p (x # xs) = (if p x then xs else x # deleteOne p xs)"

text \<open>\<^verbatim>\<open>result.deletedCount\<close> of a \<^verbatim>\<open>deleteOne\<close>.\<close>

definition deletedCount :: "('a \<Rightarrow> bool) \<Rightarrow> 'a list \<Rightarrow> nat" where
  "deletedCount p xs = (case findOne p xs of None \<Rightarrow> 0 | Some x \<Rightarrow> 1)"

text \<open>\<^verbatim>\<open>collection.deleteMany(query)\<close>: every match is removed.\<close>

definition deleteMany :: "('a \<Rightarrow> bool) \<Rightarrow> 'a list \<Rightarrow> 'a list" where
  "deleteMany p xs = filter (\<lambda>x. \<not> p x) xs"

text \<open>
  \<^verbatim>\<open>collection.findOneAndUpdate(query, {$set: data}, {returnDocument: 'after'})\<close>:
  the first match is replaced by its update; \<open>upd\<close> is the field update that
  \<^verbatim>\<open>$set\<close> performs.
\<close>

fun updateFirst :: "('a \<Rightarrow> bool) \<Rightarrow> ('a \<Rightarrow> 'a) \<Rightarrow> 'a list \<Rightarrow> 'a list" where
  "updateFirst p upd [] = []"
| "updateFirst p upd (x # xs) = (if p x then upd x # xs else x # updateFirst p upd xs)"

definition findOneAndUpdate :: "('a \<Rightarrow> bool) \<Rightarrow> ('a \<Rightarrow> 'a) \<Rightarrow> 'a list \<Rightarrow> 'a option \<times> 'a list" where
  "findOneAndUpdate p upd xs = (map_option upd (findOne p xs), updateFirst p upd xs)"

text \<open>
  The manually generated numeric id:
  \<^verbatim>\<open>find().sort({id: -1}).limit(1)\<close>, then \<^verbatim>\<open>last.length > 0 ? last[0].id + 1 : 1\<close>.
\<close>

fun newId :: "int list \<Rightarrow> int" where
  "newId [] = 1"
| "newId (i # is) = fold max is i + 1"

subsection \<open>Verification questions\<close>

definition getVerificationQuestions :: "Storage \<Rightarrow> int \<Rightarrow> VerificationQuestion list" where
  "getVerificationQuestions st bookId =
     filter (\<lambda>q. q_bookId q = bookId) (verificationQuestions st)"

subsection \<open>Sessions and responses (server/routes.ts)\<close>

text \<open>
  \<^verbatim>\<open>req.session\<close>: each field may be undefined. \<^verbatim>\<open>isVerified\<close> is an object keyed by
  book id.
\<close>

record Session =
  session_userId :: "int option"
  session_isAdmin :: "bool option"
  session_isVerified :: "(int \<rightharpoonup> bool) option"

datatype jsval = JNum int | JStr string | JBool bool | JArr "jsval list"

type_synonym jsobject = "(string \<times> jsval) list"

datatype payload =
    Message string
  | ValidationError
  | VerifyResult bool string
  | QuestionList "jsobject list"
  | ReviewJson Review "int \<times> string"
  | UserJson jsobject

datatype response = Response (status: nat) (payload: payload)

text \<open>\<^verbatim>\<open>requireAuth\<close> lets a request through unless \<^verbatim>\<open>!req.session.userId\<close>.\<close>

definition requireAuth :: "Session \<Rightarrow> bool" where
  "requireAuth sess = (case session_userId sess of None \<Rightarrow> False | Some u \<Rightarrow> u \<noteq> 0)"

text \<open>\<^verbatim>\<open>req.session.isVerified && req.session.isVerified[bookId]\<close>, as a truth value.\<close>

definition sessionVerified :: "Session \<Rightarrow> int \<Rightarrow> bool" where
  "sessionVerified sess bookId =
     (case session_isVerified sess of None \<Rightarrow> False | Some m \<Rightarrow> m bookId = Some True)"

subsection \<open>POST /api/books/:id/verify\<close>

text \<open>\<^verbatim>\<open>answers[index]\<close>: undefined beyond the end of the array.\<close>

definition js_index :: "'a list \<Rightarrow> nat \<Rightarrow> 'a option" where
  "js_index xs i = (if i < length xs then Some (xs ! i) else None)"

text \<open>\<^verbatim>\<open>array.every((element, index) => ...)\<close>, counting the index up from \<open>k\<close>.\<close>

fun every_from :: "nat \<Rightarrow> ('a \<Rightarrow> nat \<Rightarrow> bool) \<Rightarrow> 'a list \<Rightarrow> bool" where
  "every_from k p [] = True"
| "every_from k p (x # xs) = (if p x k then every_from (Suc k) p xs else False)"

definition every :: "('a \<Rightarrow> nat \<Rightarrow> bool) \<Rightarrow> 'a list \<Rightarrow> bool" where
  "every p xs = every_from 0 p xs"

definition allCorrect :: "VerificationQuestion list \<Rightarrow> int list \<Rightarrow> bool" where
  "allCorrect questions answers =
     every (\<lambda>question index. js_index answers index = Some (q_correctOptionIndex question)) questions"

text \<open>
  The handler. \<open>body_answers\<close> is the \<^verbatim>\<open>answers\<close> field of the request body as
  \<^verbatim>\<open>verifyAnswersSchema\<close> sees it: \<open>None\<close> when it is not an array of numbers
  (the parse throws a ZodError), \<open>Some\<close> of the array otherwise.
\<close>

definition verifyHandler :: "Storage \<Rightarrow> Session \<Rightarrow> int \<Rightarrow> int list option \<Rightarrow> response \<times> Session" where
  "verifyHandler st sess bookId body_answers =
     (if \<not> requireAuth sess then (Response 401 (Message ''Authentication required''), sess)
      else case body_answers of
        None \<Rightarrow> (Response 400 ValidationError, sess)
      | Some answers \<Rightarrow>
          (let questions = getVerificationQuestions st bookId in
           if length questions = 0
           then (Response 404 (Message ''No verification questions found for this book''), sess)
           else if length answers \<noteq> length questions
           then (Response 400 (Message ''Must answer all questions''), sess)
           else if allCorrect questions answers
           then (Response 200 (VerifyResult True ''Answers verified successfully''),
                 sess\<lparr>session_isVerified :=
                   Some ((case session_isVerified sess of None \<Rightarrow> Map.empty | Some m \<Rightarrow> m)
                         (bookId \<mapsto> True))\<rparr>)
           else (Response 200 (VerifyResult False ''One or more answers are incorrect''), sess)))"

subsection \<open>GET /api/books/:id/questions\<close>

text \<open>
  A stored question as the JavaScript object the driver returns: its own properties in
  the order \<^verbatim>\<open>createVerificationQuestion\<close> builds them (\<^verbatim>\<open>{...question, id}\<close>). The
  driver's \<^verbatim>\<open>_id\<close> is left out.
\<close>

definition question_doc :: "VerificationQuestion \<Rightarrow> jsobject" where
  "question_doc q =
     [(''bookId'', JNum (q_bookId q)),
      (''question'', JStr (q_question q)),
      (''options'', JArr (map JStr (q_options q))),
      (''correctOptionIndex'', JNum (q_correctOptionIndex q)),
      (''id'', JNum (q_id q))]"

text \<open>The rest pattern \<^verbatim>\<open>({ key, ...rest }) => rest\<close>.\<close>

definition omit_key :: "string \<Rightarrow> jsobject \<Rightarrow> jsobject" where
  "omit_key k obj = filter (\<lambda>kv. fst kv \<noteq> k) obj"

text \<open>The route has no middleware: the session is received and never read.\<close>

definition questionsHandler :: "Storage \<Rightarrow> Session \<Rightarrow> int \<Rightarrow> response" where
  "questionsHandler st sess bookId =
     (let questions = getVerificationQuestions st bookId;
          sanitizedQuestions = map (\<lambda>q. omit_key ''correctOptionIndex'' (question_doc q)) questions
      in Response 200 (QuestionList sanitizedQuestions))"

subsection \<open>Users\<close>

definition getUser :: "Storage \<Rightarrow> int \<Rightarrow> User option" where
  "getUser st i = findOne (\<lambda>u. user_id u = i) (users st)"

definition getUserByEmail :: "Storage \<Rightarrow> string \<Rightarrow> User option" where
  "getUserByEmail st email = findOne (\<lambda>u. user_email u = email) (users st)"

text \<open>
  \<^verbatim>\<open>createUser\<close>. The collection has a unique index on \<^verbatim>\<open>email\<close>; the login handler
  calls it only after \<^verbatim>\<open>getUserByEmail\<close> found nobody.
\<close>

definition createUser :: "Storage \<Rightarrow> InsertUser \<Rightarrow> nat \<Rightarrow> User \<times> Storage" where
  "createUser st user now =
     (let newUser = \<lparr>user_id = newId (map user_id (users st)),
                     user_name = iu_name user,
                     user_email = iu_email user,
                     user_password = iu_password user,
                     user_isAdmin = (case iu_isAdmin user of None \<Rightarrow> False | Some b \<Rightarrow> b),
                     user_isActive = True,
                     user_joinedAt = now\<rparr>
      in (newUser, st\<lparr>users := users st @ [newUser]\<rparr>))"

subsection \<open>Books\<close>

definition getBook :: "Storage \<Rightarrow> int \<Rightarrow> Book option" where
  "getBook st i = findOne (\<lambda>b. book_id b = i) (books st)"

definition updateBook :: "Storage \<Rightarrow> int \<Rightarrow> (Book \<Rightarrow> Book) \<Rightarrow> Book option \<times> Storage" where
  "updateBook st i bookData =
     (let r = findOneAndUpdate (\<lambda>b. book_id b = i) bookData (books st)
      in (fst r, st\<lparr>books := snd r\<rparr>))"

definition deleteBook :: "Storage \<Rightarrow> int \<Rightarrow> bool \<times> Storage" where
  "deleteBook st i =
     (0 < deletedCount (\<lambda>b. book_id b = i) (books st),
      st\<lparr>books := deleteOne (\<lambda>b. book_id b = i) (books st),
         verificationQuestions := deleteMany (\<lambda>q. q_bookId q = i) (verificationQuestions st),
         reviews := deleteMany (\<lambda>r. review_bookId r = i) (reviews st),
         readingLists := deleteMany (\<lambda>e. rl_bookId e = i) (readingLists st),
         likedBooks := deleteMany (\<lambda>e. lb_bookId e = i) (likedBooks st)\<rparr>)"

subsection \<open>Reviews and the rating aggregate\<close>

definition getReview :: "Storage \<Rightarrow> int \<Rightarrow> Review option" where
  "getReview st i = findOne (\<lambda>r. review_id r = i) (reviews st)"

text \<open>
  \<^verbatim>\<open>getReviewsByBook\<close> returns each review of the book with the summary of its author
  attached when the author exists.
\<close>

definition getReviewsByBook :: "Storage \<Rightarrow> int \<Rightarrow> (Review \<times> (int \<times> string) option) list" where
  "getReviewsByBook st bookId =
     map (\<lambda>review. (review, map_option (\<lambda>user. (user_id user, user_name user))
                                        (getUser st (review_userId review))))
         (filter (\<lambda>r. review_bookId r = bookId) (reviews st))"

text \<open>\<^verbatim>\<open>reviews.reduce((sum, r) => sum + r.rating, 0)\<close>\<close>

definition totalRating :: "(Review \<times> (int \<times> string) option) list \<Rightarrow> int" where
  "totalRating rs = foldl (\<lambda>sum r. sum + review_rating (fst r)) 0 rs"

text \<open>
  The operator \<^verbatim>\<open>/\<close> on JavaScript numbers is the IEEE 754 binary64 division: the exact
  quotient rounded to the nearest number with a 53-bit mantissa, ties to the even
  mantissa. \<open>log2 n\<close> is the position of the leading bit of \<open>n\<close>, \<open>binary_exponent p q\<close>
  the exponent \<open>e\<close> with \<open>2\<^sup>e \<le> p / q < 2\<^sup>e\<^sup>+\<^sup>1\<close>, and the unit in the last place of the
  quotient is \<open>2\<^sup>e\<^sup>-\<^sup>5\<^sup>2\<close>. Quotients of integers below \<open>2\<^sup>5\<^sup>3\<close> by a length neither
  overflow nor fall into the subnormal range.
\<close>

fun log2 :: "nat \<Rightarrow> nat" where
  "log2 n = (if n < 2 then 0 else Suc (log2 (n div 2)))"

declare log2.simps [simp del]

definition round_half_even :: "rat \<Rightarrow> int" where
  "round_half_even x =
     (let f = \<lfloor>x\<rfloor>; r = x - of_int f
      in if r < 1 / 2 then f else if 1 / 2 < r then f + 1 else if even f then f else f + 1)"

definition binary_exponent :: "nat \<Rightarrow> nat \<Rightarrow> int" where
  "binary_exponent p q =
     (let d = int (log2 p) - int (log2 q)
      in if (2::rat) powi d \<le> of_nat p / of_nat q then d else d - 1)"

definition nearest_double :: "nat \<Rightarrow> nat \<Rightarrow> rat" where
  "nearest_double p q =
     (let ulp = (2::rat) powi (binary_exponent p q - 52)
      in of_int (round_half_even (of_nat p / of_nat q / ulp)) * ulp)"

definition js_quotient :: "int \<Rightarrow> nat \<Rightarrow> rat" where
  "js_quotient a n =
     (if a = 0 then 0
      else if 0 < a then nearest_double (nat a) n
      else - nearest_double (nat (- a)) n)"

text \<open>The JavaScript quotient of an integer by a length.\<close>

definition js_div :: "int \<Rightarrow> nat \<Rightarrow> jsnum" where
  "js_div a n =
     (if n = 0 then (if a = 0 then NaN else if 0 < a then PosInfinity else NegInfinity)
      else Num (js_quotient a n))"

text \<open>\<^verbatim>\<open>{ averageRating, totalReviews: reviews.length }\<close> as a \<^verbatim>\<open>$set\<close>.\<close>

definition setAggregate :: "jsnum \<Rightarrow> nat \<Rightarrow> Book \<Rightarrow> Book" where
  "setAggregate averageRating n book =
     book\<lparr>book_averageRating := averageRating, book_totalReviews := n\<rparr>"

text \<open>The recompute step of \<^verbatim>\<open>createReview\<close> (the block under "Update book average rating").\<close>

definition createReview_recompute :: "Storage \<Rightarrow> int \<Rightarrow> Storage" where
  "createReview_recompute st bookId =
     (case getBook st bookId of
        None \<Rightarrow> st
      | Some book \<Rightarrow>
          (let rs = getReviewsByBook st bookId;
               averageRating = js_div (totalRating rs) (length rs)
           in snd (updateBook st (book_id book) (setAggregate averageRating (length rs)))))"

definition createReview :: "Storage \<Rightarrow> InsertReview \<Rightarrow> nat \<Rightarrow> Review \<times> Storage" where
  "createReview st review now =
     (let newReview = \<lparr>review_id = newId (map review_id (reviews st)),
                       review_bookId = ir_bookId review,
                       review_userId = ir_userId review,
                       review_rating = ir_rating review,
                       review_content = ir_content review,
                       review_createdAt = now\<rparr>;
          st1 = st\<lparr>reviews := reviews st @ [newReview]\<rparr>
      in (newReview, createReview_recompute st1 (ir_bookId review)))"

text \<open>
  The recompute step of \<^verbatim>\<open>updateReview\<close>: no look-up of the book, no guard on the
  number of reviews.
\<close>

definition updateReview_recompute :: "Storage \<Rightarrow> int \<Rightarrow> Storage" where
  "updateReview_recompute st bookId =
     (let rs = getReviewsByBook st bookId;
          averageRating = js_div (totalRating rs) (length rs)
      in snd (updateBook st bookId (setAggregate averageRating (length rs))))"

definition updateReview :: "Storage \<Rightarrow> int \<Rightarrow> (Review \<Rightarrow> Review) \<Rightarrow> Review option \<times> Storage" where
  "updateReview st i reviewData =
     (let r = findOneAndUpdate (\<lambda>r. review_id r = i) reviewData (reviews st);
          st1 = st\<lparr>reviews := snd r\<rparr>
      in case fst r of
           None \<Rightarrow> (None, st1)
         | Some result \<Rightarrow> (Some result, updateReview_recompute st1 (review_bookId result)))"

text \<open>The recompute step of \<^verbatim>\<open>deleteReview\<close>: the only one that guards the division.\<close>

definition deleteReview_recompute :: "Storage \<Rightarrow> int \<Rightarrow> Storage" where
  "deleteReview_recompute st bookId =
     (case getBook st bookId of
        None \<Rightarrow> st
      | Some book \<Rightarrow>
          (let rs = getReviewsByBook st bookId;
               averageRating = (if 0 < length rs then js_div (totalRating rs) (length rs) else Num 0)
           in snd (updateBook st (book_id book) (setAggregate averageRating (length rs)))))"

definition deleteReview :: "Storage \<Rightarrow> int \<Rightarrow> bool \<times> Storage" where
  "deleteReview st i =
     (case getReview st i of
        None \<Rightarrow> (False, st)
      | Some review \<Rightarrow>
          (let n = deletedCount (\<lambda>r. review_id r = i) (reviews st);
               st1 = st\<lparr>reviews := deleteOne (\<lambda>r. review_id r = i) (reviews st)\<rparr>
           in if 0 < n then (True, deleteReview_recompute st1 (review_bookId review))
              else (False, st1)))"

subsection \<open>POST /api/books/:id/reviews\<close>

text \<open>
  The request body as \<^verbatim>\<open>reviewWithVerificationSchema\<close> sees it: a field is \<open>None\<close> when it
  is missing or of the wrong JSON type. \<^verbatim>\<open>insertReviewSchema\<close> is generated from the table
  definition, where \<^verbatim>\<open>rating\<close> is \<^verbatim>\<open>integer("rating").notNull()\<close>: a number, with no
  bound of its own. \<^verbatim>\<open>bookId\<close> and \<^verbatim>\<open>userId\<close> are overwritten by the handler.
\<close>

record ReviewBody =
  body_rating :: "int option"
  body_content :: "string option"
  body_verified :: "bool option"

definition reviewWithVerificationSchema_parse ::
  "ReviewBody \<Rightarrow> int \<Rightarrow> int \<Rightarrow> (bool \<times> InsertReview) option" where
  "reviewWithVerificationSchema_parse body bookId userId =
     (case body_rating body of
        None \<Rightarrow> None
      | Some rating \<Rightarrow>
          (case body_content body of
             None \<Rightarrow> None
           | Some content \<Rightarrow>
               (case body_verified body of
                  None \<Rightarrow> None
                | Some verified \<Rightarrow>
                    Some (verified, \<lparr>ir_bookId = bookId, ir_userId = userId,
                                     ir_rating = rating, ir_content = content\<rparr>))))"

definition userSummary :: "User option \<Rightarrow> int \<times> string" where
  "userSummary user = (case user of None \<Rightarrow> (0, ''Unknown User'') | Some u \<Rightarrow> (user_id u, user_name u))"

definition createReviewHandler ::
  "Storage \<Rightarrow> Session \<Rightarrow> int \<Rightarrow> ReviewBody \<Rightarrow> nat \<Rightarrow> response \<times> Storage" where
  "createReviewHandler st sess bookId body now =
     (case session_userId sess of
        None \<Rightarrow> (Response 401 (Message ''Authentication required''), st)
      | Some userId \<Rightarrow>
          if userId = 0 then (Response 401 (Message ''Authentication required''), st)
          else
            (let isVerified = sessionVerified sess bookId in
             case reviewWithVerificationSchema_parse body bookId userId of
               None \<Rightarrow> (Response 400 ValidationError, st)
             | Some (verified, reviewData) \<Rightarrow>
                 if \<not> verified \<and> \<not> isVerified
                 then (Response 403 (Message
                   ''You must correctly answer the verification questions before reviewing this book''), st)
                 else
                   (let created = createReview st reviewData now;
                        user = getUser (snd created) userId
                    in (Response 201 (ReviewJson (fst created) (userSummary user)), snd created))))"

subsection \<open>POST /api/auth/login and POST /api/auth/logout\<close>

record LoginBody =
  body_email :: "string option"
  body_password :: "string option"

text \<open>
  \<^verbatim>\<open>loginSchema\<close>: \<^verbatim>\<open>email\<close> is a string that the validator's e-mail pattern accepts,
  \<^verbatim>\<open>password\<close> a string of at least one character. The pattern belongs to the
  validation library and is the parameter \<open>isEmail\<close>.
\<close>

definition loginSchema_parse :: "(string \<Rightarrow> bool) \<Rightarrow> LoginBody \<Rightarrow> (string \<times> string) option" where
  "loginSchema_parse isEmail body =
     (case body_email body of
        None \<Rightarrow> None
      | Some email \<Rightarrow>
          if \<not> isEmail email then None
          else (case body_password body of
                  None \<Rightarrow> None
                | Some password \<Rightarrow> if length password < 1 then None else Some (email, password)))"

definition user_doc :: "User \<Rightarrow> jsobject" where
  "user_doc u =
     [(''name'', JStr (user_name u)),
      (''email'', JStr (user_email u)),
      (''password'', JStr (user_password u)),
      (''isAdmin'', JBool (user_isAdmin u)),
      (''id'', JNum (user_id u)),
      (''isActive'', JBool (user_isActive u)),
      (''joinedAt'', JNum (int (user_joinedAt u)))]"

text \<open>\<^verbatim>\<open>if (!req.session.isVerified) { req.session.isVerified = {}; }\<close>\<close>

definition initVerified :: "Session \<Rightarrow> Session" where
  "initVerified sess =
     (case session_isVerified sess of
        None \<Rightarrow> sess\<lparr>session_isVerified := Some Map.empty\<rparr>
      | Some m \<Rightarrow> sess)"

text \<open>
  The handler; the block that only logs whether the admin user is stored is left out.
\<close>

definition loginHandler ::
  "(string \<Rightarrow> bool) \<Rightarrow> Storage \<Rightarrow> Session \<Rightarrow> LoginBody \<Rightarrow> nat \<Rightarrow> response \<times> Storage \<times> Session" where
  "loginHandler isEmail st sess body now =
     (case loginSchema_parse isEmail body of
        None \<Rightarrow> (Response 400 ValidationError, st, sess)
      | Some (email, password) \<Rightarrow>
          (let user = getUserByEmail st email in
           if email = ''admin@gmail.com'' \<and> password = ''admin123''
           then
             (case user of
                None \<Rightarrow>
                  (let created = createUser st
                         \<lparr>iu_name = ''Admin User'', iu_email = ''admin@gmail.com'',
                          iu_password = ''admin123'', iu_isAdmin = Some True\<rparr> now;
                       newAdmin = fst created
                   in (Response 200 (UserJson (omit_key ''password'' (user_doc newAdmin))),
                       snd created,
                       sess\<lparr>session_userId := Some (user_id newAdmin),
                            session_isAdmin := Some True,
                            session_isVerified := Some Map.empty\<rparr>))
              | Some u \<Rightarrow>
                  (Response 200 (UserJson (omit_key ''password'' (user_doc u))),
                   st,
                   initVerified (sess\<lparr>session_userId := Some (user_id u),
                                      session_isAdmin := Some True\<rparr>)))
           else
             (case user of
                None \<Rightarrow> (Response 401 (Message ''Invalid email or password''), st, sess)
              | Some u \<Rightarrow>
                  if user_password u \<noteq> password
                  then (Response 401 (Message ''Invalid email or password''), st, sess)
                  else (Response 200 (UserJson (omit_key ''password'' (user_doc u))),
                        st,
                        initVerified (sess\<lparr>session_userId := Some (user_id u),
                                           session_isAdmin := Some (user_isAdmin u)\<rparr>)))))"

text \<open>
  \<^verbatim>\<open>req.session.destroy\<close>: the data of the session is dropped, and the client's next
  request starts from an empty session.
\<close>

definition logoutHandler :: "Session \<Rightarrow> response \<times> Session" where
  "logoutHandler sess =
     (Response 200 (Message ''Logged out successfully''),
      \<lparr>session_userId = None, session_isAdmin = None, session_isVerified = None\<rparr>)"

subsection \<open>The aggregate a book should carry\<close>

text \<open>
  The ratings of the reviews stored for a book; their arithmetic mean as a rational; and
  the mean as a JavaScript number, that is rounded to the nearest binary64 number, with
  the convention that the mean of no ratings is 0.
\<close>

definition ratingsOf :: "Storage \<Rightarrow> int \<Rightarrow> int list" where
  "ratingsOf st bookId = map review_rating (filter (\<lambda>r. review_bookId r = bookId) (reviews st))"

definition exactMean :: "int list \<Rightarrow> rat" where
  "exactMean rs = of_int (sum_list rs) / of_nat (length rs)"

definition meanOfRatings :: "int list \<Rightarrow> jsnum" where
  "meanOfRatings rs = (if rs = [] then Num 0 else Num (js_quotient (sum_list rs) (length rs)))"

text \<open>
  The stored aggregate of a book agrees with its reviews: the book found under the id, if
  there is one, carries the mean of the ratings stored for it and their number.
\<close>

definition aggregateConsistent :: "Storage \<Rightarrow> int \<Rightarrow> bool" where
  "aggregateConsistent st bookId =
     (case getBook st bookId of
        None \<Rightarrow> True
      | Some book \<Rightarrow>
          book_averageRating book = meanOfRatings (ratingsOf st bookId) \<and>
          book_totalReviews book = length (ratingsOf st bookId))"

subsection \<open>A small library used in the examples\<close>

definition demoQuestion :: "int \<Rightarrow> string \<Rightarrow> int \<Rightarrow> VerificationQuestion" where
  "demoQuestion i text correct =
     \<lparr>q_id = i, q_bookId = 1, q_question = text,
      q_options = [''a'', ''b'', ''c'', ''d''], q_correctOptionIndex = correct\<rparr>"

definition demoBook :: "int \<Rightarrow> string \<Rightarrow> Book" where
  "demoBook i title =
     \<lparr>book_id = i, book_title = title, book_author = ''Author'',
      book_publisher = None, book_publishedDate = None,
      book_description = ''A book'', book_category = ''Fiction'',
      book_isbn = None, book_coverImage = None, book_addedAt = 0,
      book_averageRating = Num 0, book_totalReviews = 0\<rparr>"

definition demoReader :: User where
  "demoReader =
     \<lparr>user_id = 1, user_name = ''Reader'', user_email = ''reader@example.com'',
      user_password = ''secret1'', user_isAdmin = False, user_isActive = True,
      user_joinedAt = 0\<rparr>"

text \<open>
  One reader and no administrator; book 1 has three questions with correct options
  1, 0, 2; book 2 has no question; a reading-list entry and a like for each book.
\<close>

definition demoStorage :: Storage where
  "demoStorage =
     \<lparr>users = [demoReader],
      books = [demoBook 1 ''First'', demoBook 2 ''Second''],
      verificationQuestions =
        [demoQuestion 1 ''Who?'' 1, demoQuestion 2 ''Where?'' 0, demoQuestion 3 ''When?'' 2],
      reviews = [],
      readingLists =
        [\<lparr>rl_id = 1, rl_userId = 1, rl_bookId = 1, rl_addedAt = 0, rl_progress = 0\<rparr>,
         \<lparr>rl_id = 2, rl_userId = 1, rl_bookId = 2, rl_addedAt = 0, rl_progress = 10\<rparr>],
      likedBooks =
        [\<lparr>lb_id = 1, lb_userId = 1, lb_bookId = 2, lb_likedAt = 0\<rparr>,
         \<lparr>lb_id = 2, lb_userId = 1, lb_bookId = 1, lb_likedAt = 0\<rparr>]\<rparr>"

text \<open>The reader's session right after login, and the same session once book 1 is verified.\<close>

definition demoSession :: Session where
  "demoSession =
     \<lparr>session_userId = Some 1, session_isAdmin = Some False, session_isVerified = Some Map.empty\<rparr>"

definition demoVerifiedSession :: Session where
  "demoVerifiedSession = demoSession\<lparr>session_isVerified := Some [1 \<mapsto> True]\<rparr>"

definition demoReview :: "int \<Rightarrow> InsertReview" where
  "demoReview rating =
     \<lparr>ir_bookId = 1, ir_userId = 1, ir_rating = rating, ir_content = ''Worth reading''\<rparr>"

text \<open>The library after reviews rated 5, 3 and 4 were created for book 1, in this order.\<close>

definition demoReviewed :: Storage where
  "demoReviewed =
     snd (createReview (snd (createReview (snd (createReview demoStorage
       (demoReview 5) 1)) (demoReview 3) 2)) (demoReview 4) 3)"

text \<open>The library after a single review, rated 5, was created for book 1.\<close>

definition demoOnce :: Storage where
  "demoOnce = snd (createReview demoStorage (demoReview 5) 1)"

definition demoReviewBody :: "int \<Rightarrow> bool \<Rightarrow> ReviewBody" where
  "demoReviewBody rating verified =
     \<lparr>body_rating = Some rating, body_content = Some ''Worth reading'',
      body_verified = Some verified\<rparr>"

definition adminLogin :: LoginBody where
  "adminLogin = \<lparr>body_email = Some ''admin@gmail.com'', body_password = Some ''admin123''\<rparr>"

text \<open>The library after reviews rated 5, 4 and 4 were created for book 1.\<close>

definition demoThirds :: Storage where
  "demoThirds =
     snd (createReview (snd (createReview (snd (createReview demoStorage
       (demoReview 5) 1)) (demoReview 4) 2)) (demoReview 4) 3)"

text \<open>Two updates of a review: a new rating, and a move to book 2.\<close>

definition rateOne :: "Review \<Rightarrow> Review" where
  "rateOne r = r\<lparr>review_rating := 1\<rparr>"

definition moveToSecond :: "Review \<Rightarrow> Review" where
  "moveToSecond r = r\<lparr>review_bookId := 2\<rparr>"

text \<open>A review body without the \<^verbatim>\<open>verified\<close> field.\<close>

definition demoUnflaggedBody :: ReviewBody where
  "demoUnflaggedBody =
     \<lparr>body_rating = Some 4, body_content = Some ''Worth reading'', body_verified = None\<rparr>"

definition demoEmail :: "string \<Rightarrow> bool" where
  "demoEmail s = (CHR ''@'' \<in> set s)"

section \<open>Properties\<close>

subsection \<open>The verification evaluator\<close>

lemma every_from_iff:
  "every_from k p xs \<longleftrightarrow> (\<forall>i<length xs. p (xs ! i) (k + i))"
proof (induction xs arbitrary: k)
  case Nil
  show ?case by simp
next
  case (Cons x xs)
  have "(\<forall>i<Suc (length xs). p ((x # xs) ! i) (k + i)) \<longleftrightarrow>
        p x k \<and> (\<forall>i<length xs. p (xs ! i) (Suc k + i))"
    by (simp add: All_less_Suc2)
  with Cons.IH [of "Suc k"] show ?case by simp
qed

lemma allCorrect_iff:
  assumes "length answers = length questions"
  shows "allCorrect questions answers \<longleftrightarrow>
         (\<forall>i<length questions. answers ! i = q_correctOptionIndex (questions ! i))"
  using assms by (simp add: allCorrect_def every_def every_from_iff js_index_def)

lemma verifyHandler_complete:
  assumes "requireAuth sess" "getVerificationQuestions st bookId \<noteq> []"
    "length answers = length (getVerificationQuestions st bookId)"
  shows "fst (verifyHandler st sess bookId (Some answers)) =
         (if allCorrect (getVerificationQuestions st bookId) answers
          then Response 200 (VerifyResult True ''Answers verified successfully'')
          else Response 200 (VerifyResult False ''One or more answers are incorrect''))"
  using assms by (simp add: verifyHandler_def Let_def)

text \<open>
  Claim C3. For a book with a non-empty question list and an answer vector of the same
  length, sent by an authenticated session, the verify endpoint answers
  \<^verbatim>\<open>verified: true\<close> exactly when every position holds the question's
  \<^verbatim>\<open>correctOptionIndex\<close>, and \<^verbatim>\<open>verified: false\<close> exactly when some position does not;
  replacing any single position by a non-matching value gives \<^verbatim>\<open>verified: false\<close>.
  Answers are compared position by position in the stored order.
\<close>

theorem verify_all_or_nothing:
  assumes auth: "requireAuth sess"
    and qs: "getVerificationQuestions st bookId = questions"
    and ne: "questions \<noteq> []"
    and len: "length answers = length questions"
  shows "(fst (verifyHandler st sess bookId (Some answers)) =
            Response 200 (VerifyResult True ''Answers verified successfully'')
          \<longleftrightarrow> (\<forall>i<length questions. answers ! i = q_correctOptionIndex (questions ! i)))
       \<and> (fst (verifyHandler st sess bookId (Some answers)) =
            Response 200 (VerifyResult False ''One or more answers are incorrect'')
          \<longleftrightarrow> (\<exists>i<length questions. answers ! i \<noteq> q_correctOptionIndex (questions ! i)))
       \<and> (\<forall>i v. i < length questions \<and> v \<noteq> q_correctOptionIndex (questions ! i) \<longrightarrow>
            fst (verifyHandler st sess bookId (Some (answers[i := v]))) =
              Response 200 (VerifyResult False ''One or more answers are incorrect''))"
proof -
  have res: "fst (verifyHandler st sess bookId (Some as)) =
         (if allCorrect questions as
          then Response 200 (VerifyResult True ''Answers verified successfully'')
          else Response 200 (VerifyResult False ''One or more answers are incorrect''))"
    if "length as = length questions" for as
    using verifyHandler_complete [of sess st bookId as] auth qs ne that by simp
  have a: "allCorrect questions answers \<longleftrightarrow>
         (\<forall>i<length questions. answers ! i = q_correctOptionIndex (questions ! i))"
    using len by (rule allCorrect_iff)
  have one: "fst (verifyHandler st sess bookId (Some (answers[i := v]))) =
              Response 200 (VerifyResult False ''One or more answers are incorrect'')"
    if "i < length questions" and "v \<noteq> q_correctOptionIndex (questions ! i)" for i v
  proof -
    have l: "length (answers[i := v]) = length questions" using len by simp
    have "(answers[i := v]) ! i = v" using that(1) len by simp
    with that have "\<not> allCorrect questions (answers[i := v])"
      using allCorrect_iff [OF l] by auto
    with res [OF l] show ?thesis by simp
  qed
  show ?thesis using res [OF len] a one by auto
qed

theorem verify_all_or_nothing_witness:
  "fst (verifyHandler demoStorage demoSession 1 (Some [1, 0, 2])) =
     Response 200 (VerifyResult True ''Answers verified successfully'')
   \<and> fst (verifyHandler demoStorage demoSession 1 (Some [1, 0, 1])) =
     Response 200 (VerifyResult False ''One or more answers are incorrect'')"
proof -
  have auth: "requireAuth demoSession"
    by (simp add: requireAuth_def demoSession_def)
  have qs: "getVerificationQuestions demoStorage 1 =
      [demoQuestion 1 ''Who?'' 1, demoQuestion 2 ''Where?'' 0, demoQuestion 3 ''When?'' 2]"
    by (simp add: getVerificationQuestions_def demoStorage_def demoQuestion_def)
  have ne: "[demoQuestion 1 ''Who?'' 1, demoQuestion 2 ''Where?'' 0, demoQuestion 3 ''When?'' 2] \<noteq> []"
    by simp
  have len: "length [1, 0, 2 :: int] =
      length [demoQuestion 1 ''Who?'' 1, demoQuestion 2 ''Where?'' 0, demoQuestion 3 ''When?'' 2]"
    by simp
  have ok: "\<forall>i<length [demoQuestion 1 ''Who?'' 1, demoQuestion 2 ''Where?'' 0, demoQuestion 3 ''When?'' 2].
      [1, 0, 2 :: int] ! i =
      q_correctOptionIndex ([demoQuestion 1 ''Who?'' 1, demoQuestion 2 ''Where?'' 0, demoQuestion 3 ''When?'' 2] ! i)"
    by (simp add: All_less_Suc2 demoQuestion_def)
  note inst = verify_all_or_nothing [OF auth qs ne len]
  from inst ok
  have pass: "fst (verifyHandler demoStorage demoSession 1 (Some [1, 0, 2])) =
     Response 200 (VerifyResult True ''Answers verified successfully'')"
    by blast
  from inst have "(2::nat) < length [demoQuestion 1 ''Who?'' 1, demoQuestion 2 ''Where?'' 0, demoQuestion 3 ''When?'' 2]
      \<and> (1::int) \<noteq> q_correctOptionIndex ([demoQuestion 1 ''Who?'' 1, demoQuestion 2 ''Where?'' 0, demoQuestion 3 ''When?'' 2] ! 2)
    \<longrightarrow> fst (verifyHandler demoStorage demoSession 1 (Some ([1, 0, 2][2 := 1]))) =
     Response 200 (VerifyResult False ''One or more answers are incorrect'')"
    by blast
  then have fail: "fst (verifyHandler demoStorage demoSession 1 (Some [1, 0, 1])) =
     Response 200 (VerifyResult False ''One or more answers are incorrect'')"
    by (simp add: demoQuestion_def)
  from pass fail show ?thesis by simp
qed

subsection \<open>The three outcomes of a verification request\<close>

text \<open>
  Claim C4. A schema-valid verification request of an authenticated session has three
  outcomes, told apart by kind. With no question configured for the book the answer is
  404 and nothing is compared, whatever was submitted. With questions configured and a
  different number of answers the answer is 400 "Must answer all questions". A complete
  submission with a wrong answer is a 200 carrying \<^verbatim>\<open>verified: false\<close>. The session is
  left as it was in all three.
\<close>

theorem verify_outcomes_by_kind:
  assumes auth: "requireAuth sess"
  shows "(getVerificationQuestions st bookId = [] \<longrightarrow>
            verifyHandler st sess bookId (Some answers) =
              (Response 404 (Message ''No verification questions found for this book''), sess))
       \<and> (getVerificationQuestions st bookId \<noteq> [] \<and>
          length answers \<noteq> length (getVerificationQuestions st bookId) \<longrightarrow>
            verifyHandler st sess bookId (Some answers) =
              (Response 400 (Message ''Must answer all questions''), sess))
       \<and> (getVerificationQuestions st bookId \<noteq> [] \<and>
          length answers = length (getVerificationQuestions st bookId) \<and>
          (\<exists>i<length answers.
             answers ! i \<noteq> q_correctOptionIndex (getVerificationQuestions st bookId ! i)) \<longrightarrow>
            verifyHandler st sess bookId (Some answers) =
              (Response 200 (VerifyResult False ''One or more answers are incorrect''), sess))"
proof (intro conjI impI)
  assume "getVerificationQuestions st bookId = []"
  with auth show "verifyHandler st sess bookId (Some answers) =
      (Response 404 (Message ''No verification questions found for this book''), sess)"
    by (simp add: verifyHandler_def)
next
  assume "getVerificationQuestions st bookId \<noteq> [] \<and>
          length answers \<noteq> length (getVerificationQuestions st bookId)"
  with auth show "verifyHandler st sess bookId (Some answers) =
      (Response 400 (Message ''Must answer all questions''), sess)"
    by (simp add: verifyHandler_def Let_def)
next
  assume a: "getVerificationQuestions st bookId \<noteq> [] \<and>
          length answers = length (getVerificationQuestions st bookId) \<and>
          (\<exists>i<length answers.
             answers ! i \<noteq> q_correctOptionIndex (getVerificationQuestions st bookId ! i))"
  then have "\<not> allCorrect (getVerificationQuestions st bookId) answers"
    using allCorrect_iff [of answers "getVerificationQuestions st bookId"] by auto
  with a auth show "verifyHandler st sess bookId (Some answers) =
      (Response 200 (VerifyResult False ''One or more answers are incorrect''), sess)"
    by (simp add: verifyHandler_def Let_def)
qed

lemma demo_auth: "requireAuth demoSession"
  by (simp add: requireAuth_def demoSession_def)

lemma demo_questions_1:
  "getVerificationQuestions demoStorage 1 =
     [demoQuestion 1 ''Who?'' 1, demoQuestion 2 ''Where?'' 0, demoQuestion 3 ''When?'' 2]"
  by (simp add: getVerificationQuestions_def demoStorage_def demoQuestion_def)

lemma demo_questions_2: "getVerificationQuestions demoStorage 2 = []"
  by (simp add: getVerificationQuestions_def demoStorage_def demoQuestion_def)

theorem verify_outcomes_by_kind_witness:
  "verifyHandler demoStorage demoSession 2 (Some [1, 0]) =
     (Response 404 (Message ''No verification questions found for this book''), demoSession)
   \<and> verifyHandler demoStorage demoSession 1 (Some [1, 0]) =
     (Response 400 (Message ''Must answer all questions''), demoSession)
   \<and> verifyHandler demoStorage demoSession 1 (Some [1, 0, 1]) =
     (Response 200 (VerifyResult False ''One or more answers are incorrect''), demoSession)"
proof -
  have wrong: "\<exists>i<length [1, 0, 1 :: int].
      [1, 0, 1 :: int] ! i \<noteq> q_correctOptionIndex (getVerificationQuestions demoStorage 1 ! i)"
    by (rule exI [of _ 2]) (simp add: demo_questions_1 demoQuestion_def)
  from verify_outcomes_by_kind [OF demo_auth, of demoStorage 2 "[1, 0]"]
  have none: "verifyHandler demoStorage demoSession 2 (Some [1, 0]) =
     (Response 404 (Message ''No verification questions found for this book''), demoSession)"
    by (simp add: demo_questions_2)
  from verify_outcomes_by_kind [OF demo_auth, of demoStorage 1 "[1, 0]"]
  have short: "verifyHandler demoStorage demoSession 1 (Some [1, 0]) =
     (Response 400 (Message ''Must answer all questions''), demoSession)"
    by (simp add: demo_questions_1)
  from verify_outcomes_by_kind [OF demo_auth, of demoStorage 1 "[1, 0, 1]"] wrong
  have bad: "verifyHandler demoStorage demoSession 1 (Some [1, 0, 1]) =
     (Response 200 (VerifyResult False ''One or more answers are incorrect''), demoSession)"
    by (simp add: demo_questions_1)
  from none short bad show ?thesis by simp
qed

subsection \<open>The public question listing\<close>

lemma sanitized_question:
  "omit_key ''correctOptionIndex'' (question_doc q) =
     [(''bookId'', JNum (q_bookId q)),
      (''question'', JStr (q_question q)),
      (''options'', JArr (map JStr (q_options q))),
      (''id'', JNum (q_id q))]"
  by (simp add: omit_key_def question_doc_def)

text \<open>
  Claim C5. The public question listing answers 200 with one object per stored question
  of the book, in order, each carrying the question's text and options and none carrying
  a \<^verbatim>\<open>correctOptionIndex\<close> property; the answer is the same for every session.
\<close>

theorem questions_hide_correct_option:
  "status (questionsHandler st sess bookId) = 200
   \<and> (\<exists>objs. payload (questionsHandler st sess bookId) = QuestionList objs
        \<and> length objs = length (getVerificationQuestions st bookId)
        \<and> (\<forall>i<length objs.
              ''correctOptionIndex'' \<notin> fst ` set (objs ! i)
            \<and> map_of (objs ! i) ''question'' =
                Some (JStr (q_question (getVerificationQuestions st bookId ! i)))
            \<and> map_of (objs ! i) ''options'' =
                Some (JArr (map JStr (q_options (getVerificationQuestions st bookId ! i))))))
   \<and> questionsHandler st sess' bookId = questionsHandler st sess bookId"
  by (simp add: questionsHandler_def Let_def sanitized_question)

theorem questions_hide_correct_option_witness:
  "payload (questionsHandler demoStorage demoSession 1) =
     QuestionList
       [[(''bookId'', JNum 1), (''question'', JStr ''Who?''),
         (''options'', JArr [JStr ''a'', JStr ''b'', JStr ''c'', JStr ''d'']), (''id'', JNum 1)],
        [(''bookId'', JNum 1), (''question'', JStr ''Where?''),
         (''options'', JArr [JStr ''a'', JStr ''b'', JStr ''c'', JStr ''d'']), (''id'', JNum 2)],
        [(''bookId'', JNum 1), (''question'', JStr ''When?''),
         (''options'', JArr [JStr ''a'', JStr ''b'', JStr ''c'', JStr ''d'']), (''id'', JNum 3)]]
   \<and> questionsHandler demoStorage
        \<lparr>session_userId = None, session_isAdmin = None, session_isVerified = None\<rparr> 1 =
      questionsHandler demoStorage demoSession 1"
proof -
  from questions_hide_correct_option [of demoStorage demoSession 1
      "\<lparr>session_userId = None, session_isAdmin = None, session_isVerified = None\<rparr>"]
  have same: "questionsHandler demoStorage
        \<lparr>session_userId = None, session_isAdmin = None, session_isVerified = None\<rparr> 1 =
      questionsHandler demoStorage demoSession 1"
    by blast
  have "payload (questionsHandler demoStorage demoSession 1) =
     QuestionList
       [[(''bookId'', JNum 1), (''question'', JStr ''Who?''),
         (''options'', JArr [JStr ''a'', JStr ''b'', JStr ''c'', JStr ''d'']), (''id'', JNum 1)],
        [(''bookId'', JNum 1), (''question'', JStr ''Where?''),
         (''options'', JArr [JStr ''a'', JStr ''b'', JStr ''c'', JStr ''d'']), (''id'', JNum 2)],
        [(''bookId'', JNum 1), (''question'', JStr ''When?''),
         (''options'', JArr [JStr ''a'', JStr ''b'', JStr ''c'', JStr ''d'']), (''id'', JNum 3)]]"
    by (simp add: questionsHandler_def Let_def sanitized_question demo_questions_1 demoQuestion_def)
  with same show ?thesis by simp
qed

subsection \<open>Deleting a book\<close>

lemma deleteMany_none: "\<forall>x\<in>set (deleteMany p xs). \<not> p x"
  by (simp add: deleteMany_def)

lemma deleteMany_others:
  assumes "\<And>x. q x \<Longrightarrow> \<not> p x"
  shows "filter q (deleteMany p xs) = filter q xs"
  using assms by (induction xs) (auto simp: deleteMany_def)

lemma deleteOne_others:
  assumes "\<And>x. q x \<Longrightarrow> \<not> p x"
  shows "filter q (deleteOne p xs) = filter q xs"
  using assms by (induction xs) auto

text \<open>
  Claim C9. After \<^verbatim>\<open>deleteBook(id)\<close> no verification question, review, reading-list
  entry or liked-book entry refers to that id, and the entries that refer to other books,
  the other books and the users are what they were.
\<close>

theorem deleteBook_cascades:
  "(\<forall>q\<in>set (verificationQuestions (snd (deleteBook st i))). q_bookId q \<noteq> i)
   \<and> (\<forall>r\<in>set (reviews (snd (deleteBook st i))). review_bookId r \<noteq> i)
   \<and> (\<forall>e\<in>set (readingLists (snd (deleteBook st i))). rl_bookId e \<noteq> i)
   \<and> (\<forall>e\<in>set (likedBooks (snd (deleteBook st i))). lb_bookId e \<noteq> i)
   \<and> filter (\<lambda>q. q_bookId q \<noteq> i) (verificationQuestions (snd (deleteBook st i))) =
       filter (\<lambda>q. q_bookId q \<noteq> i) (verificationQuestions st)
   \<and> filter (\<lambda>r. review_bookId r \<noteq> i) (reviews (snd (deleteBook st i))) =
       filter (\<lambda>r. review_bookId r \<noteq> i) (reviews st)
   \<and> filter (\<lambda>e. rl_bookId e \<noteq> i) (readingLists (snd (deleteBook st i))) =
       filter (\<lambda>e. rl_bookId e \<noteq> i) (readingLists st)
   \<and> filter (\<lambda>e. lb_bookId e \<noteq> i) (likedBooks (snd (deleteBook st i))) =
       filter (\<lambda>e. lb_bookId e \<noteq> i) (likedBooks st)
   \<and> filter (\<lambda>b. book_id b \<noteq> i) (books (snd (deleteBook st i))) =
       filter (\<lambda>b. book_id b \<noteq> i) (books st)
   \<and> users (snd (deleteBook st i)) = users st"
proof -
  have q1: "\<forall>q\<in>set (verificationQuestions (snd (deleteBook st i))). q_bookId q \<noteq> i"
    using deleteMany_none [of "\<lambda>q. q_bookId q = i"] by (simp add: deleteBook_def)
  have q2: "\<forall>r\<in>set (reviews (snd (deleteBook st i))). review_bookId r \<noteq> i"
    using deleteMany_none [of "\<lambda>r. review_bookId r = i"] by (simp add: deleteBook_def)
  have q3: "\<forall>e\<in>set (readingLists (snd (deleteBook st i))). rl_bookId e \<noteq> i"
    using deleteMany_none [of "\<lambda>e. rl_bookId e = i"] by (simp add: deleteBook_def)
  have q4: "\<forall>e\<in>set (likedBooks (snd (deleteBook st i))). lb_bookId e \<noteq> i"
    using deleteMany_none [of "\<lambda>e. lb_bookId e = i"] by (simp add: deleteBook_def)
  have k1: "filter (\<lambda>q. q_bookId q \<noteq> i) (verificationQuestions (snd (deleteBook st i))) =
       filter (\<lambda>q. q_bookId q \<noteq> i) (verificationQuestions st)"
    by (simp add: deleteBook_def deleteMany_others)
  have k2: "filter (\<lambda>r. review_bookId r \<noteq> i) (reviews (snd (deleteBook st i))) =
       filter (\<lambda>r. review_bookId r \<noteq> i) (reviews st)"
    by (simp add: deleteBook_def deleteMany_others)
  have k3: "filter (\<lambda>e. rl_bookId e \<noteq> i) (readingLists (snd (deleteBook st i))) =
       filter (\<lambda>e. rl_bookId e \<noteq> i) (readingLists st)"
    by (simp add: deleteBook_def deleteMany_others)
  have k4: "filter (\<lambda>e. lb_bookId e \<noteq> i) (likedBooks (snd (deleteBook st i))) =
       filter (\<lambda>e. lb_bookId e \<noteq> i) (likedBooks st)"
    by (simp add: deleteBook_def deleteMany_others)
  have k5: "filter (\<lambda>b. book_id b \<noteq> i) (books (snd (deleteBook st i))) =
       filter (\<lambda>b. book_id b \<noteq> i) (books st)"
    by (simp add: deleteBook_def deleteOne_others)
  have k6: "users (snd (deleteBook st i)) = users st"
    by (simp add: deleteBook_def)
  from q1 q2 q3 q4 k1 k2 k3 k4 k5 k6 show ?thesis by blast
qed

subsection \<open>The rating aggregate\<close>

lemma findOne_updateFirst:
  assumes "\<And>x. p (upd x) = p x"
  shows "findOne p (updateFirst p upd xs) = map_option upd (findOne p xs)"
  using assms by (induction xs) auto

lemma updateFirst_twice:
  assumes "\<And>x. p (upd x) = p x" and "\<And>x. upd (upd x) = upd x"
  shows "updateFirst p upd (updateFirst p upd xs) = updateFirst p upd xs"
  using assms by (induction xs) auto

lemma findOne_Some_holds: "findOne p xs = Some x \<Longrightarrow> p x \<and> x \<in> set xs"
  by (induction xs) (auto split: if_splits)

lemma updateFirst_member:
  "findOne p xs = Some x \<Longrightarrow> upd x \<in> set (updateFirst p upd xs)"
  by (induction xs) (auto split: if_splits)

lemma book_id_setAggregate [simp]: "book_id (setAggregate a n b) = book_id b"
  by (simp add: setAggregate_def)

lemma setAggregate_twice [simp]: "setAggregate a n (setAggregate a n b) = setAggregate a n b"
  by (simp add: setAggregate_def)

lemma getBook_updateBook:
  "getBook (snd (updateBook st i (setAggregate a n))) i = map_option (setAggregate a n) (getBook st i)"
  by (simp add: getBook_def updateBook_def findOneAndUpdate_def Let_def findOne_updateFirst)

lemma updateBook_keeps:
  "reviews (snd (updateBook st i f)) = reviews st \<and> users (snd (updateBook st i f)) = users st"
  by (simp add: updateBook_def Let_def)

lemma getReviewsByBook_updateBook:
  "getReviewsByBook (snd (updateBook st i f)) b = getReviewsByBook st b"
  by (simp add: getReviewsByBook_def getUser_def updateBook_keeps)

lemma ratingsOf_updateBook: "ratingsOf (snd (updateBook st i f)) b = ratingsOf st b"
  by (simp add: ratingsOf_def updateBook_keeps)

lemma updateBook_twice:
  "snd (updateBook (snd (updateBook st i (setAggregate a n))) i (setAggregate a n)) =
   snd (updateBook st i (setAggregate a n))"
  by (simp add: updateBook_def findOneAndUpdate_def Let_def updateFirst_twice)

lemma foldl_add_sum: "foldl (\<lambda>sum r. sum + f r) (a::int) xs = a + sum_list (map f xs)"
  by (induction xs arbitrary: a) auto

lemma length_getReviewsByBook: "length (getReviewsByBook st b) = length (ratingsOf st b)"
  by (simp add: getReviewsByBook_def ratingsOf_def)

lemma totalRating_getReviewsByBook: "totalRating (getReviewsByBook st b) = sum_list (ratingsOf st b)"
  by (simp add: totalRating_def getReviewsByBook_def ratingsOf_def foldl_add_sum comp_def)

lemma getReviewsByBook_Nil: "(getReviewsByBook st b = []) = (ratingsOf st b = [])"
  by (simp add: getReviewsByBook_def ratingsOf_def)

lemma js_div_mean: "rs \<noteq> [] \<Longrightarrow> js_div (sum_list rs) (length rs) = meanOfRatings rs"
  by (simp add: js_div_def meanOfRatings_def)

lemma guarded_mean:
  "(if 0 < length rs then js_div (sum_list rs) (length rs) else Num 0) = meanOfRatings rs"
  by (simp add: js_div_def meanOfRatings_def)

lemma createReview_recompute_eq:
  "createReview_recompute st b =
     (case getBook st b of
        None \<Rightarrow> st
      | Some book \<Rightarrow> snd (updateBook st b
          (setAggregate (js_div (sum_list (ratingsOf st b)) (length (ratingsOf st b)))
                        (length (ratingsOf st b)))))"
proof (cases "getBook st b")
  case None
  then show ?thesis by (simp add: createReview_recompute_def)
next
  case (Some book)
  then have "book_id book = b"
    using findOne_Some_holds [of "\<lambda>x. book_id x = b" "books st" book] by (simp add: getBook_def)
  with Some show ?thesis
    by (simp add: createReview_recompute_def Let_def length_getReviewsByBook
        totalRating_getReviewsByBook)
qed

lemma updateReview_recompute_eq:
  "updateReview_recompute st b =
     snd (updateBook st b
          (setAggregate (js_div (sum_list (ratingsOf st b)) (length (ratingsOf st b)))
                        (length (ratingsOf st b))))"
  by (simp add: updateReview_recompute_def Let_def length_getReviewsByBook
      totalRating_getReviewsByBook)

lemma deleteReview_recompute_eq:
  "deleteReview_recompute st b =
     (case getBook st b of
        None \<Rightarrow> st
      | Some book \<Rightarrow> snd (updateBook st b
          (setAggregate (meanOfRatings (ratingsOf st b)) (length (ratingsOf st b)))))"
proof (cases "getBook st b")
  case None
  then show ?thesis by (simp add: deleteReview_recompute_def)
next
  case (Some book)
  then have "book_id book = b"
    using findOne_Some_holds [of "\<lambda>x. book_id x = b" "books st" book] by (simp add: getBook_def)
  with Some show ?thesis
    by (simp add: deleteReview_recompute_def Let_def length_getReviewsByBook
        totalRating_getReviewsByBook getReviewsByBook_Nil js_div_mean meanOfRatings_def)
qed

lemma ratingsOf_createReview_recompute:
  "ratingsOf (createReview_recompute st b) b' = ratingsOf st b'"
  by (simp add: createReview_recompute_eq ratingsOf_updateBook split: option.splits)

lemma ratingsOf_updateReview_recompute:
  "ratingsOf (updateReview_recompute st b) b' = ratingsOf st b'"
  by (simp add: updateReview_recompute_eq ratingsOf_updateBook)

lemma ratingsOf_deleteReview_recompute:
  "ratingsOf (deleteReview_recompute st b) b' = ratingsOf st b'"
  by (simp add: deleteReview_recompute_eq ratingsOf_updateBook split: option.splits)

lemma createReview_recompute_consistent:
  assumes "ratingsOf st b \<noteq> []"
  shows "aggregateConsistent (createReview_recompute st b) b"
  using assms
  by (cases "getBook st b")
     (simp_all add: aggregateConsistent_def ratingsOf_createReview_recompute,
      simp_all add: createReview_recompute_eq getBook_updateBook ratingsOf_updateBook
        js_div_mean setAggregate_def)

lemma updateReview_recompute_consistent:
  assumes "ratingsOf st b \<noteq> []"
  shows "aggregateConsistent (updateReview_recompute st b) b"
  using assms
  by (cases "getBook st b")
     (simp_all add: aggregateConsistent_def ratingsOf_updateReview_recompute,
      simp_all add: updateReview_recompute_eq getBook_updateBook ratingsOf_updateBook
        js_div_mean setAggregate_def)

lemma deleteReview_recompute_consistent:
  "aggregateConsistent (deleteReview_recompute st b) b"
  by (cases "getBook st b")
     (simp_all add: aggregateConsistent_def ratingsOf_deleteReview_recompute,
      simp_all add: deleteReview_recompute_eq getBook_updateBook ratingsOf_updateBook
        setAggregate_def)

lemma findOne_updateFirst_None:
  assumes "\<And>x. p (upd x) = p x"
  shows "(findOne p (updateFirst q upd xs) = None) = (findOne p xs = None)"
  using assms by (induction xs) auto

lemma updateBook_rest:
  "verificationQuestions (snd (updateBook st i f)) = verificationQuestions st
   \<and> readingLists (snd (updateBook st i f)) = readingLists st
   \<and> likedBooks (snd (updateBook st i f)) = likedBooks st"
  by (simp add: updateBook_def Let_def)

lemma createReview_recompute_keeps:
  "reviews (createReview_recompute st b) = reviews st
   \<and> users (createReview_recompute st b) = users st
   \<and> verificationQuestions (createReview_recompute st b) = verificationQuestions st
   \<and> readingLists (createReview_recompute st b) = readingLists st
   \<and> likedBooks (createReview_recompute st b) = likedBooks st"
  by (simp add: createReview_recompute_eq updateBook_keeps updateBook_rest split: option.splits)

lemma deleteReview_recompute_keeps:
  "reviews (deleteReview_recompute st b) = reviews st
   \<and> users (deleteReview_recompute st b) = users st"
  by (simp add: deleteReview_recompute_eq updateBook_keeps split: option.splits)

lemma updateReview_recompute_keeps:
  "reviews (updateReview_recompute st b) = reviews st
   \<and> users (updateReview_recompute st b) = users st"
  by (simp add: updateReview_recompute_eq updateBook_keeps)

lemma getBook_updateBook_None:
  "(getBook (snd (updateBook st i (setAggregate a n))) j = None) = (getBook st j = None)"
  by (simp add: getBook_def updateBook_def findOneAndUpdate_def Let_def findOne_updateFirst_None)

lemma getBook_createReview_recompute_None:
  "(getBook (createReview_recompute st b) j = None) = (getBook st j = None)"
  by (simp add: createReview_recompute_eq getBook_updateBook_None split: option.splits)

lemma getBook_deleteReview_recompute_None:
  "(getBook (deleteReview_recompute st b) j = None) = (getBook st j = None)"
  by (simp add: deleteReview_recompute_eq getBook_updateBook_None split: option.splits)

lemma createReview_reviews:
  "reviews (snd (createReview st review now)) =
     reviews st @ [\<lparr>review_id = newId (map review_id (reviews st)),
                    review_bookId = ir_bookId review,
                    review_userId = ir_userId review,
                    review_rating = ir_rating review,
                    review_content = ir_content review,
                    review_createdAt = now\<rparr>]"
  by (simp add: createReview_def Let_def createReview_recompute_keeps)

lemma createReview_rest:
  "users (snd (createReview st review now)) = users st
   \<and> verificationQuestions (snd (createReview st review now)) = verificationQuestions st
   \<and> readingLists (snd (createReview st review now)) = readingLists st
   \<and> likedBooks (snd (createReview st review now)) = likedBooks st"
  by (simp add: createReview_def Let_def createReview_recompute_keeps)

lemma getBook_createReview_None:
  "(getBook (snd (createReview st review now)) j = None) = (getBook st j = None)"
  by (simp add: createReview_def Let_def getBook_createReview_recompute_None)
     (simp add: getBook_def)

lemma demoReviewed_reviews:
  "reviews demoReviewed =
     [\<lparr>review_id = 1, review_bookId = 1, review_userId = 1, review_rating = 5,
       review_content = ''Worth reading'', review_createdAt = 1\<rparr>,
      \<lparr>review_id = 2, review_bookId = 1, review_userId = 1, review_rating = 3,
       review_content = ''Worth reading'', review_createdAt = 2\<rparr>,
      \<lparr>review_id = 3, review_bookId = 1, review_userId = 1, review_rating = 4,
       review_content = ''Worth reading'', review_createdAt = 3\<rparr>]"
  by (simp add: demoReviewed_def createReview_reviews demoStorage_def demoReview_def)

lemma demoReviewed_rest:
  "verificationQuestions demoReviewed = verificationQuestions demoStorage
   \<and> readingLists demoReviewed = readingLists demoStorage
   \<and> likedBooks demoReviewed = likedBooks demoStorage
   \<and> users demoReviewed = users demoStorage"
  by (simp add: demoReviewed_def createReview_rest)

lemma demoReviewed_book: "getBook demoReviewed 1 \<noteq> None"
  by (simp add: demoReviewed_def getBook_createReview_None)
     (simp add: getBook_def demoStorage_def demoBook_def)

lemma findOne_deletedCount: "findOne p xs = Some x \<Longrightarrow> deletedCount p xs = 1"
  by (simp add: deletedCount_def)

lemma deleteReview_found:
  assumes "getReview st i = Some review"
  shows "deleteReview st i =
     (True, deleteReview_recompute
        (st\<lparr>reviews := deleteOne (\<lambda>r. review_id r = i) (reviews st)\<rparr>) (review_bookId review))"
proof -
  from assms have "deletedCount (\<lambda>r. review_id r = i) (reviews st) = 1"
    by (simp add: getReview_def findOne_deletedCount)
  with assms show ?thesis by (simp add: deleteReview_def Let_def)
qed

lemma deleteReview_reviews:
  assumes "getReview st i = Some review"
  shows "reviews (snd (deleteReview st i)) = deleteOne (\<lambda>r. review_id r = i) (reviews st)"
  by (simp add: deleteReview_found [OF assms] deleteReview_recompute_keeps)

lemma getBook_deleteReview_None:
  assumes "getReview st i = Some review"
  shows "(getBook (snd (deleteReview st i)) j = None) = (getBook st j = None)"
  by (simp add: deleteReview_found [OF assms] getBook_deleteReview_recompute_None)
     (simp add: getBook_def)

lemma createReview_consistent:
  "aggregateConsistent (snd (createReview st review now)) (ir_bookId review)"
  by (simp add: createReview_def Let_def)
     (rule createReview_recompute_consistent, simp add: ratingsOf_def)

lemma updateReview_consistent:
  assumes "fst (updateReview st i reviewData) = Some result"
  shows "aggregateConsistent (snd (updateReview st i reviewData)) (review_bookId result)"
proof -
  let ?p = "\<lambda>r. review_id r = i"
  let ?st1 = "st\<lparr>reviews := updateFirst ?p reviewData (reviews st)\<rparr>"
  from assms obtain x where x: "findOne ?p (reviews st) = Some x" and r: "result = reviewData x"
    by (cases "findOne ?p (reviews st)")
       (auto simp: updateReview_def findOneAndUpdate_def Let_def)
  from x have "result \<in> set (reviews ?st1)"
    by (simp add: r updateFirst_member)
  then have "filter (\<lambda>r. review_bookId r = review_bookId result) (reviews ?st1) \<noteq> []"
    by (auto simp: filter_empty_conv)
  then have ne: "ratingsOf ?st1 (review_bookId result) \<noteq> []"
    by (simp add: ratingsOf_def)
  from x r have "snd (updateReview st i reviewData) =
      updateReview_recompute ?st1 (review_bookId result)"
    by (simp add: updateReview_def findOneAndUpdate_def Let_def)
  with updateReview_recompute_consistent [OF ne] show ?thesis by simp
qed

lemma deleteReview_consistent:
  assumes "getReview st i = Some review"
  shows "aggregateConsistent (snd (deleteReview st i)) (review_bookId review)"
  by (simp add: deleteReview_found [OF assms] deleteReview_recompute_consistent)

lemma updateReview_found:
  assumes "getReview st i = Some found"
  shows "updateReview st i reviewData =
     (Some (reviewData found),
      updateReview_recompute
        (st\<lparr>reviews := updateFirst (\<lambda>r. review_id r = i) reviewData (reviews st)\<rparr>)
        (review_bookId (reviewData found)))"
  using assms by (simp add: updateReview_def findOneAndUpdate_def Let_def getReview_def)

lemma updateReview_reviews:
  assumes "getReview st i = Some found"
  shows "reviews (snd (updateReview st i reviewData)) =
     updateFirst (\<lambda>r. review_id r = i) reviewData (reviews st)"
  by (simp add: updateReview_found [OF assms] updateReview_recompute_keeps)

lemma updateReview_found_consistent:
  assumes "getReview st i = Some found"
  shows "aggregateConsistent (snd (updateReview st i reviewData))
           (review_bookId (reviewData found))"
  by (rule updateReview_consistent) (simp add: updateReview_found [OF assms])

text \<open>
  Claim C6, amended. After \<^verbatim>\<open>createReview\<close>, after an \<^verbatim>\<open>updateReview\<close> of a stored
  review and after a \<^verbatim>\<open>deleteReview\<close> of a stored review, the review list is the old one
  with the review appended, updated or removed, and the book that the created, updated or
  deleted review names carries as \<^verbatim>\<open>averageRating\<close> the JavaScript quotient of the sum
  of the ratings now stored for it by their number, which is their arithmetic mean
  rounded to the nearest binary64 number (0 when none is left, never the result of a
  division by zero), and as \<^verbatim>\<open>totalReviews\<close> their number.
\<close>

theorem aggregate_follows_reviews:
  "reviews (snd (createReview st review now)) =
     reviews st @ [\<lparr>review_id = newId (map review_id (reviews st)),
                    review_bookId = ir_bookId review,
                    review_userId = ir_userId review,
                    review_rating = ir_rating review,
                    review_content = ir_content review,
                    review_createdAt = now\<rparr>]
   \<and> aggregateConsistent (snd (createReview st review now)) (ir_bookId review)
   \<and> (\<forall>found. getReview st i = Some found \<longrightarrow>
        fst (updateReview st i reviewData) = Some (reviewData found) \<and>
        reviews (snd (updateReview st i reviewData)) =
          updateFirst (\<lambda>r. review_id r = i) reviewData (reviews st) \<and>
        aggregateConsistent (snd (updateReview st i reviewData))
          (review_bookId (reviewData found)))
   \<and> (\<forall>found. getReview st i = Some found \<longrightarrow>
        fst (deleteReview st i) \<and>
        reviews (snd (deleteReview st i)) = deleteOne (\<lambda>r. review_id r = i) (reviews st) \<and>
        aggregateConsistent (snd (deleteReview st i)) (review_bookId found))"
proof (intro conjI allI impI)
  show "reviews (snd (createReview st review now)) =
     reviews st @ [\<lparr>review_id = newId (map review_id (reviews st)),
                    review_bookId = ir_bookId review,
                    review_userId = ir_userId review,
                    review_rating = ir_rating review,
                    review_content = ir_content review,
                    review_createdAt = now\<rparr>]"
    by (rule createReview_reviews)
next
  show "aggregateConsistent (snd (createReview st review now)) (ir_bookId review)"
    by (rule createReview_consistent)
next
  fix found
  assume "getReview st i = Some found"
  then show "fst (updateReview st i reviewData) = Some (reviewData found)"
    by (simp add: updateReview_found)
next
  fix found
  assume "getReview st i = Some found"
  then show "reviews (snd (updateReview st i reviewData)) =
          updateFirst (\<lambda>r. review_id r = i) reviewData (reviews st)"
    by (rule updateReview_reviews)
next
  fix found
  assume "getReview st i = Some found"
  then show "aggregateConsistent (snd (updateReview st i reviewData))
          (review_bookId (reviewData found))"
    by (rule updateReview_found_consistent)
next
  fix found
  assume "getReview st i = Some found"
  then show "fst (deleteReview st i)" by (simp add: deleteReview_found)
next
  fix found
  assume "getReview st i = Some found"
  then show "reviews (snd (deleteReview st i)) = deleteOne (\<lambda>r. review_id r = i) (reviews st)"
    by (rule deleteReview_reviews)
next
  fix found
  assume "getReview st i = Some found"
  then show "aggregateConsistent (snd (deleteReview st i)) (review_bookId found)"
    by (rule deleteReview_consistent)
qed

lemma aggregateConsistent_value:
  assumes "aggregateConsistent st b" and "getBook st b \<noteq> None" and "ratingsOf st b = rs"
  shows "map_option (\<lambda>book. (book_averageRating book, book_totalReviews book)) (getBook st b) =
         Some (meanOfRatings rs, length rs)"
  using assms by (auto simp: aggregateConsistent_def)

lemma getBook_updateReview_None:
  assumes "getReview st i = Some found"
  shows "(getBook (snd (updateReview st i reviewData)) j = None) = (getBook st j = None)"
  by (simp add: updateReview_found [OF assms] updateReview_recompute_eq getBook_updateBook_None)
     (simp add: getBook_def)

lemma demo_getReview_2:
  "getReview demoReviewed 2 =
     Some \<lparr>review_id = 2, review_bookId = 1, review_userId = 1, review_rating = 3,
            review_content = ''Worth reading'', review_createdAt = 2\<rparr>"
  by (simp add: getReview_def demoReviewed_reviews)

lemma demo_getReview_3:
  "getReview demoReviewed 3 =
     Some \<lparr>review_id = 3, review_bookId = 1, review_userId = 1, review_rating = 4,
            review_content = ''Worth reading'', review_createdAt = 3\<rparr>"
  by (simp add: getReview_def demoReviewed_reviews)

lemma demoOnce_reviews:
  "reviews demoOnce =
     [\<lparr>review_id = 1, review_bookId = 1, review_userId = 1, review_rating = 5,
       review_content = ''Worth reading'', review_createdAt = 1\<rparr>]"
  by (simp add: demoOnce_def createReview_reviews demoStorage_def demoReview_def)

lemma demo_getReview_1:
  "getReview demoOnce 1 =
     Some \<lparr>review_id = 1, review_bookId = 1, review_userId = 1, review_rating = 5,
            review_content = ''Worth reading'', review_createdAt = 1\<rparr>"
  by (simp add: getReview_def demoOnce_reviews)

lemma demoOnce_book: "getBook demoOnce 1 \<noteq> None"
  by (simp add: demoOnce_def getBook_createReview_None)
     (simp add: getBook_def demoStorage_def demoBook_def)

lemma demo_means:
  "meanOfRatings [5, 3, 4] = Num 4"
  "meanOfRatings [5, 4] = Num (9 / 2)"
  "meanOfRatings [5, 3, 1] = Num 3"
  "meanOfRatings [] = Num 0"
  "meanOfRatings [5, 4, 4] = Num (4878899596318037 / 1125899906842624)"
  by code_simp+

theorem aggregate_follows_reviews_witness:
  "map_option (\<lambda>book. (book_averageRating book, book_totalReviews book))
      (getBook demoReviewed 1) = Some (Num 4, 3)
   \<and> map_option (\<lambda>book. (book_averageRating book, book_totalReviews book))
      (getBook (snd (deleteReview demoReviewed 2)) 1) = Some (Num (9 / 2), 2)
   \<and> fst (updateReview demoReviewed 3 rateOne) =
       Some \<lparr>review_id = 3, review_bookId = 1, review_userId = 1, review_rating = 1,
              review_content = ''Worth reading'', review_createdAt = 3\<rparr>
   \<and> map_option (\<lambda>book. (book_averageRating book, book_totalReviews book))
      (getBook (snd (updateReview demoReviewed 3 rateOne)) 1) = Some (Num 3, 3)
   \<and> map_option (\<lambda>book. (book_averageRating book, book_totalReviews book))
      (getBook (snd (deleteReview demoOnce 1)) 1) = Some (Num 0, 0)"
proof -
  note created = aggregate_follows_reviews
      [where st = "snd (createReview (snd (createReview demoStorage (demoReview 5) 1))
                     (demoReview 3) 2)"
         and review = "demoReview 4" and now = 3, THEN conjunct2, THEN conjunct1]
  then have "aggregateConsistent demoReviewed (ir_bookId (demoReview 4))"
    by (simp add: demoReviewed_def)
  then have c: "aggregateConsistent demoReviewed 1" by (simp add: demoReview_def)
  have r3: "ratingsOf demoReviewed 1 = [5, 3, 4]"
    by (simp add: ratingsOf_def demoReviewed_reviews)
  from aggregateConsistent_value [OF c demoReviewed_book r3]
  have one: "map_option (\<lambda>book. (book_averageRating book, book_totalReviews book))
      (getBook demoReviewed 1) = Some (Num 4, 3)"
    by (simp add: demo_means numeral_3_eq_3 numeral_2_eq_2)
  note deleted = aggregate_follows_reviews [where st = demoReviewed and i = 2,
      THEN conjunct2, THEN conjunct2, THEN conjunct2, THEN spec, THEN mp, OF demo_getReview_2]
  from deleted have d: "aggregateConsistent (snd (deleteReview demoReviewed 2)) 1" by simp
  from deleted have "reviews (snd (deleteReview demoReviewed 2)) =
      deleteOne (\<lambda>r. review_id r = 2) (reviews demoReviewed)" by simp
  then have r2: "ratingsOf (snd (deleteReview demoReviewed 2)) 1 = [5, 4]"
    by (simp add: ratingsOf_def demoReviewed_reviews)
  have b2: "getBook (snd (deleteReview demoReviewed 2)) 1 \<noteq> None"
    by (simp add: getBook_deleteReview_None [OF demo_getReview_2] demoReviewed_book)
  from aggregateConsistent_value [OF d b2 r2]
  have two: "map_option (\<lambda>book. (book_averageRating book, book_totalReviews book))
      (getBook (snd (deleteReview demoReviewed 2)) 1) = Some (Num (9 / 2), 2)"
    by (simp add: demo_means numeral_3_eq_3 numeral_2_eq_2)
  note updated = aggregate_follows_reviews [where st = demoReviewed and i = 3
      and reviewData = rateOne,
      THEN conjunct2, THEN conjunct2, THEN conjunct1, THEN spec, THEN mp, OF demo_getReview_3]
  from updated have three: "fst (updateReview demoReviewed 3 rateOne) =
       Some \<lparr>review_id = 3, review_bookId = 1, review_userId = 1, review_rating = 1,
              review_content = ''Worth reading'', review_createdAt = 3\<rparr>"
    by (simp add: rateOne_def)
  from updated have u: "aggregateConsistent (snd (updateReview demoReviewed 3 rateOne)) 1"
    by (simp add: rateOne_def)
  from updated have "reviews (snd (updateReview demoReviewed 3 rateOne)) =
      updateFirst (\<lambda>r. review_id r = 3) rateOne (reviews demoReviewed)" by simp
  then have ru: "ratingsOf (snd (updateReview demoReviewed 3 rateOne)) 1 = [5, 3, 1]"
    by (simp add: ratingsOf_def demoReviewed_reviews rateOne_def)
  have bu: "getBook (snd (updateReview demoReviewed 3 rateOne)) 1 \<noteq> None"
    by (simp add: getBook_updateReview_None [OF demo_getReview_3] demoReviewed_book)
  from aggregateConsistent_value [OF u bu ru]
  have four: "map_option (\<lambda>book. (book_averageRating book, book_totalReviews book))
      (getBook (snd (updateReview demoReviewed 3 rateOne)) 1) = Some (Num 3, 3)"
    by (simp add: demo_means numeral_3_eq_3 numeral_2_eq_2)
  note emptied = aggregate_follows_reviews [where st = demoOnce and i = 1,
      THEN conjunct2, THEN conjunct2, THEN conjunct2, THEN spec, THEN mp, OF demo_getReview_1]
  from emptied have z: "aggregateConsistent (snd (deleteReview demoOnce 1)) 1" by simp
  from emptied have "reviews (snd (deleteReview demoOnce 1)) =
      deleteOne (\<lambda>r. review_id r = 1) (reviews demoOnce)" by simp
  then have r0: "ratingsOf (snd (deleteReview demoOnce 1)) 1 = []"
    by (simp add: ratingsOf_def demoOnce_reviews)
  have b0: "getBook (snd (deleteReview demoOnce 1)) 1 \<noteq> None"
    by (simp add: getBook_deleteReview_None [OF demo_getReview_1] demoOnce_book)
  from aggregateConsistent_value [OF z b0 r0]
  have five: "map_option (\<lambda>book. (book_averageRating book, book_totalReviews book))
      (getBook (snd (deleteReview demoOnce 1)) 1) = Some (Num 0, 0)"
    by (simp add: demo_means numeral_3_eq_3 numeral_2_eq_2)
  from one two three four five show ?thesis by simp
qed

subsection \<open>Where the stored aggregate is not the exact mean\<close>

lemma findOne_updateFirst_other:
  assumes "\<And>x. q x \<Longrightarrow> \<not> p x" and "\<And>x. q x \<Longrightarrow> \<not> p (upd x)"
  shows "findOne p (updateFirst q upd xs) = findOne p xs"
  using assms by (induction xs) auto

lemma getBook_updateBook_other:
  assumes "i \<noteq> j"
  shows "getBook (snd (updateBook st i (setAggregate a n))) j = getBook st j"
  using assms findOne_updateFirst_other
    [of "\<lambda>b. book_id b = i" "\<lambda>b. book_id b = j" "setAggregate a n" "books st"]
  by (simp add: getBook_def updateBook_def findOneAndUpdate_def Let_def)

lemma demoThirds_reviews:
  "reviews demoThirds =
     [\<lparr>review_id = 1, review_bookId = 1, review_userId = 1, review_rating = 5,
       review_content = ''Worth reading'', review_createdAt = 1\<rparr>,
      \<lparr>review_id = 2, review_bookId = 1, review_userId = 1, review_rating = 4,
       review_content = ''Worth reading'', review_createdAt = 2\<rparr>,
      \<lparr>review_id = 3, review_bookId = 1, review_userId = 1, review_rating = 4,
       review_content = ''Worth reading'', review_createdAt = 3\<rparr>]"
  by (simp add: demoThirds_def createReview_reviews demoStorage_def demoReview_def)

lemma demoThirds_book: "getBook demoThirds 1 \<noteq> None"
  by (simp add: demoThirds_def getBook_createReview_None)
     (simp add: getBook_def demoStorage_def demoBook_def)

lemma demoThirds_aggregate:
  "map_option (\<lambda>book. (book_averageRating book, book_totalReviews book)) (getBook demoThirds 1) =
     Some (Num (4878899596318037 / 1125899906842624), 3)"
proof -
  have "aggregateConsistent demoThirds (ir_bookId (demoReview 4))"
    unfolding demoThirds_def by (rule createReview_consistent)
  then have c: "aggregateConsistent demoThirds 1" by (simp add: demoReview_def)
  have r: "ratingsOf demoThirds 1 = [5, 4, 4]"
    by (simp add: ratingsOf_def demoThirds_reviews)
  from aggregateConsistent_value [OF c demoThirds_book r] show ?thesis
    by (simp add: demo_means numeral_3_eq_3 numeral_2_eq_2)
qed

lemma demoReviewed_aggregate:
  "map_option (\<lambda>book. (book_averageRating book, book_totalReviews book)) (getBook demoReviewed 1) =
     Some (Num 4, 3)"
proof -
  have "aggregateConsistent demoReviewed (ir_bookId (demoReview 4))"
    unfolding demoReviewed_def by (rule createReview_consistent)
  then have c: "aggregateConsistent demoReviewed 1" by (simp add: demoReview_def)
  have r: "ratingsOf demoReviewed 1 = [5, 3, 4]"
    by (simp add: ratingsOf_def demoReviewed_reviews)
  from aggregateConsistent_value [OF c demoReviewed_book r] show ?thesis
    by (simp add: demo_means numeral_3_eq_3 numeral_2_eq_2)
qed

text \<open>
  Claim C6 as stated fails in two places. The stored average is a JavaScript number: for
  the ratings 5, 4 and 4 the book stores the binary64 number nearest to 13/3, which is
  not 13/3. And \<^verbatim>\<open>updateReview\<close> recomputes only the book that the updated review
  names: when review 2 of the example is moved from book 1 to book 2, book 1 keeps the
  average 4 and the count 3 although the ratings 5 and 4 are all that is left for it.
\<close>

theorem aggregate_not_exact_mean:
  "ratingsOf demoThirds 1 = [5, 4, 4]
   \<and> exactMean [5, 4, 4] = 13 / 3
   \<and> map_option book_averageRating (getBook demoThirds 1) =
       Some (Num (4878899596318037 / 1125899906842624))
   \<and> Num (4878899596318037 / 1125899906842624) \<noteq> Num (exactMean [5, 4, 4])
   \<and> ratingsOf (snd (updateReview demoReviewed 2 moveToSecond)) 1 = [5, 4]
   \<and> map_option book_averageRating
       (getBook (snd (updateReview demoReviewed 2 moveToSecond)) 1) = Some (Num 4)
   \<and> map_option book_totalReviews
       (getBook (snd (updateReview demoReviewed 2 moveToSecond)) 1) = Some 3"
proof -
  have 1: "ratingsOf demoThirds 1 = [5, 4, 4]"
    by (simp add: ratingsOf_def demoThirds_reviews)
  have 2: "exactMean [5, 4, 4] = 13 / 3"
    by (simp add: exactMean_def)
  from demoThirds_aggregate
  have 3: "map_option book_averageRating (getBook demoThirds 1) =
       Some (Num (4878899596318037 / 1125899906842624))"
    by (cases "getBook demoThirds 1") simp_all
  have 4: "Num (4878899596318037 / 1125899906842624) \<noteq> Num (exactMean [5, 4, 4])"
    by (simp add: 2)
  have moved: "review_bookId (moveToSecond
      \<lparr>review_id = 2, review_bookId = 1, review_userId = 1, review_rating = 3,
       review_content = ''Worth reading'', review_createdAt = 2\<rparr>) = 2"
    by (simp add: moveToSecond_def)
  have 5: "ratingsOf (snd (updateReview demoReviewed 2 moveToSecond)) 1 = [5, 4]"
    by (simp add: ratingsOf_def updateReview_reviews [OF demo_getReview_2] demoReviewed_reviews
        moveToSecond_def)
  have "getBook (snd (updateReview demoReviewed 2 moveToSecond)) 1 = getBook demoReviewed 1"
    by (simp add: updateReview_found [OF demo_getReview_2] moved updateReview_recompute_eq
        getBook_updateBook_other)
       (simp add: getBook_def)
  with demoReviewed_aggregate
  have 6: "map_option book_averageRating
       (getBook (snd (updateReview demoReviewed 2 moveToSecond)) 1) = Some (Num 4)"
    and 7: "map_option book_totalReviews
       (getBook (snd (updateReview demoReviewed 2 moveToSecond)) 1) = Some 3"
    by (cases "getBook demoReviewed 1"; simp)+
  from 1 2 3 4 5 6 7 show ?thesis by simp
qed

subsection \<open>The quotient is the nearest binary64 number\<close>

lemma log2_bounds: "0 < n \<Longrightarrow> 2 ^ log2 n \<le> n \<and> n < 2 * 2 ^ log2 n"
proof (induction n rule: log2.induct)
  case (1 n)
  show ?case
  proof (cases "n < 2")
    case True
    with "1.prems" show ?thesis by (simp add: log2.simps [of n])
  next
    case False
    then have "0 < n div 2" by simp
    with "1.IH" False have "2 ^ log2 (n div 2) \<le> n div 2 \<and> n div 2 < 2 * 2 ^ log2 (n div 2)"
      by simp
    with False show ?thesis by (simp add: log2.simps [of n]) linarith
  qed
qed

lemma round_half_even_error: "\<bar>of_int (round_half_even x) - x\<bar> \<le> 1 / 2"
proof -
  have lo: "of_int \<lfloor>x\<rfloor> \<le> x" and hi: "x < of_int \<lfloor>x\<rfloor> + 1"
    by linarith+
  consider "x - of_int \<lfloor>x\<rfloor> < 1 / 2" | "1 / 2 < x - of_int \<lfloor>x\<rfloor>"
    | "x - of_int \<lfloor>x\<rfloor> = 1 / 2"
    by linarith
  then show ?thesis
  proof cases
    case 1
    then have "round_half_even x = \<lfloor>x\<rfloor>" by (simp add: round_half_even_def Let_def)
    with 1 lo show ?thesis by simp
  next
    case 2
    then have "round_half_even x = \<lfloor>x\<rfloor> + 1" by (simp add: round_half_even_def Let_def)
    with 2 hi show ?thesis by simp
  next
    case 3
    then have "round_half_even x = \<lfloor>x\<rfloor> \<or> round_half_even x = \<lfloor>x\<rfloor> + 1"
      by (simp add: round_half_even_def Let_def)
    with 3 show ?thesis by auto
  qed
qed

lemma round_half_even_int: "round_half_even (of_int k) = k"
  by (simp add: round_half_even_def)

lemma binary_exponent_bounds:
  assumes "0 < p" "0 < q"
  shows "(2::rat) powi binary_exponent p q \<le> of_nat p / of_nat q
       \<and> of_nat p / of_nat q < (2::rat) powi (binary_exponent p q + 1)"
proof -
  let ?a = "of_nat p / of_nat q :: rat"
  let ?d = "int (log2 p) - int (log2 q)"
  have cast: "(2::rat) ^ log2 n \<le> of_nat n \<and> of_nat n < (2::rat) * 2 ^ log2 n" if "0 < n" for n
  proof -
    from log2_bounds [OF that]
    have "(of_nat (2 ^ log2 n) :: rat) \<le> of_nat n" "(of_nat n :: rat) < of_nat (2 * 2 ^ log2 n)"
      by (simp_all only: of_nat_le_iff of_nat_less_iff)
    then show ?thesis by simp
  qed
  from cast [OF assms(1)] have p: "(2::rat) ^ log2 p \<le> of_nat p" "of_nat p < (2::rat) * 2 ^ log2 p"
    by simp_all
  from cast [OF assms(2)] have q: "(2::rat) ^ log2 q \<le> of_nat q" "of_nat q < (2::rat) * 2 ^ log2 q"
    by simp_all
  have qpos: "(0::rat) < of_nat q" using assms by simp
  have up: "?a < 2 powi (?d + 1)"
  proof -
    have "?a < (2 * 2 ^ log2 p) / 2 ^ log2 q"
      using p q qpos by (intro frac_less) auto
    also have "\<dots> = 2 powi (?d + 1)"
      by (simp add: power_int_diff power_int_add)
    finally show ?thesis .
  qed
  have low: "2 powi (?d - 1) < ?a"
  proof -
    have "(2::rat) ^ log2 p / (2 * 2 ^ log2 q) < ?a"
      using p q qpos by (intro frac_less2) auto
    moreover have "(2::rat) ^ log2 p / (2 * 2 ^ log2 q) = 2 powi (?d - 1)"
      by (simp add: power_int_diff)
    ultimately show ?thesis by simp
  qed
  show ?thesis
  proof (cases "(2::rat) powi ?d \<le> ?a")
    case True
    with up show ?thesis by (simp add: binary_exponent_def Let_def)
  next
    case False
    with low show ?thesis by (simp add: binary_exponent_def Let_def)
  qed
qed

lemma abs_scale:
  assumes "0 < (u::rat)"
  shows "\<bar>m - a / u\<bar> * u = \<bar>m * u - a\<bar>"
proof -
  have "\<bar>m - a / u\<bar> * u = \<bar>(m - a / u) * u\<bar>"
    using assms by (simp add: abs_mult)
  also have "(m - a / u) * u = m * u - a"
    using assms by (simp add: field_simps)
  finally show ?thesis .
qed

lemma nearest_double_error:
  assumes "0 < p" "0 < q"
  shows "\<bar>nearest_double p q - of_nat p / of_nat q\<bar> \<le> 2 powi (binary_exponent p q - 53)"
proof -
  let ?a = "of_nat p / of_nat q :: rat"
  let ?ulp = "(2::rat) powi (binary_exponent p q - 52)"
  let ?m = "of_int (round_half_even (?a / ?ulp)) :: rat"
  have pos: "0 < ?ulp" by simp
  have half: "1 / 2 * ?ulp = 2 powi (binary_exponent p q - 53)"
    by (simp add: power_int_diff)
  have "\<bar>?m - ?a / ?ulp\<bar> \<le> 1 / 2"
    by (rule round_half_even_error)
  then have le: "\<bar>?m - ?a / ?ulp\<bar> * ?ulp \<le> 1 / 2 * ?ulp"
    using pos by (rule mult_right_mono [OF _ less_imp_le])
  have "\<bar>nearest_double p q - ?a\<bar> = \<bar>?m * ?ulp - ?a\<bar>"
    by (simp add: nearest_double_def Let_def)
  also have "\<dots> = \<bar>?m - ?a / ?ulp\<bar> * ?ulp"
    using pos by (rule abs_scale [symmetric])
  also note le
  also note half
  finally show ?thesis .
qed

lemma nearest_double_exact:
  assumes "of_nat p / of_nat q = of_int k * (2::rat) powi (binary_exponent p q - 52)"
  shows "nearest_double p q = of_nat p / of_nat q"
proof -
  let ?ulp = "(2::rat) powi (binary_exponent p q - 52)"
  have "of_nat p / of_nat q / ?ulp = (of_int k :: rat)"
    using assms by simp
  then show ?thesis
    by (simp add: nearest_double_def Let_def round_half_even_int assms)
qed

lemma js_quotient_error:
  assumes "a \<noteq> 0" "0 < n"
  shows "\<bar>js_quotient a n - of_int a / of_nat n\<bar> \<le> 2 powi (binary_exponent (nat \<bar>a\<bar>) n - 53)"
proof (cases "0 < a")
  case True
  then have pos: "0 < nat a" by simp
  have q: "js_quotient a n = nearest_double (nat a) n"
    using True by (simp add: js_quotient_def)
  have cast: "(of_nat (nat a) :: rat) = of_int a"
    using True by simp
  have absa: "nat \<bar>a\<bar> = nat a"
    using True by simp
  from nearest_double_error [OF pos assms(2)] show ?thesis
    unfolding q cast absa .
next
  case False
  with assms have neg: "a < 0" by simp
  then have pos: "0 < nat (- a)" by simp
  have q: "js_quotient a n = - nearest_double (nat (- a)) n"
    using neg by (simp add: js_quotient_def)
  have cast: "(of_nat (nat (- a)) :: rat) = - of_int a"
    using neg by simp
  have absa: "nat \<bar>a\<bar> = nat (- a)"
    using neg by simp
  have "js_quotient a n - of_int a / of_nat n =
      - (nearest_double (nat (- a)) n - of_nat (nat (- a)) / of_nat n)"
    unfolding q cast by simp
  then have "\<bar>js_quotient a n - of_int a / of_nat n\<bar> =
      \<bar>nearest_double (nat (- a)) n - of_nat (nat (- a)) / of_nat n\<bar>"
    by (simp only: abs_minus_cancel)
  also have "\<dots> \<le> 2 powi (binary_exponent (nat (- a)) n - 53)"
    using pos assms(2) by (rule nearest_double_error)
  finally show ?thesis unfolding absa .
qed

subsection \<open>The recompute step run twice\<close>

lemma createReview_recompute_twice:
  "createReview_recompute (createReview_recompute st b) b = createReview_recompute st b"
proof (cases "getBook st b")
  case None
  then show ?thesis by (simp add: createReview_recompute_eq)
next
  case (Some book)
  then show ?thesis
    by (simp add: createReview_recompute_eq getBook_updateBook ratingsOf_updateBook
        updateBook_twice)
qed

lemma updateReview_recompute_twice:
  "updateReview_recompute (updateReview_recompute st b) b = updateReview_recompute st b"
  by (simp add: updateReview_recompute_eq ratingsOf_updateBook updateBook_twice)

lemma deleteReview_recompute_twice:
  "deleteReview_recompute (deleteReview_recompute st b) b = deleteReview_recompute st b"
proof (cases "getBook st b")
  case None
  then show ?thesis by (simp add: deleteReview_recompute_eq)
next
  case (Some book)
  then show ?thesis
    by (simp add: deleteReview_recompute_eq getBook_updateBook ratingsOf_updateBook
        updateBook_twice)
qed

text \<open>
  Claim C7. Each of the three recompute steps is idempotent: run a second time for the
  same book, with no change to the reviews in between, it reads the same reviews, computes
  the same \<^verbatim>\<open>averageRating\<close> and \<^verbatim>\<open>totalReviews\<close>, and leaves the whole storage as the
  first run left it.
\<close>

theorem recompute_idempotent:
  "createReview_recompute (createReview_recompute st b) b = createReview_recompute st b
   \<and> updateReview_recompute (updateReview_recompute st b) b = updateReview_recompute st b
   \<and> deleteReview_recompute (deleteReview_recompute st b) b = deleteReview_recompute st b
   \<and> getReviewsByBook (createReview_recompute st b) b = getReviewsByBook st b
   \<and> getReviewsByBook (updateReview_recompute st b) b = getReviewsByBook st b
   \<and> getReviewsByBook (deleteReview_recompute st b) b = getReviewsByBook st b"
proof -
  have 1: "getReviewsByBook (createReview_recompute st b) b = getReviewsByBook st b"
    by (simp add: getReviewsByBook_def getUser_def createReview_recompute_keeps)
  have 2: "getReviewsByBook (updateReview_recompute st b) b = getReviewsByBook st b"
    by (simp add: getReviewsByBook_def getUser_def updateReview_recompute_keeps)
  have 3: "getReviewsByBook (deleteReview_recompute st b) b = getReviewsByBook st b"
    by (simp add: getReviewsByBook_def getUser_def deleteReview_recompute_keeps)
  from createReview_recompute_twice updateReview_recompute_twice deleteReview_recompute_twice
    1 2 3 show ?thesis by simp
qed

theorem recompute_idempotent_witness:
  "createReview_recompute (createReview_recompute demoReviewed 1) 1 =
     createReview_recompute demoReviewed 1
   \<and> updateReview_recompute (updateReview_recompute demoReviewed 1) 1 =
     updateReview_recompute demoReviewed 1
   \<and> deleteReview_recompute (deleteReview_recompute demoReviewed 1) 1 =
     deleteReview_recompute demoReviewed 1"
  using recompute_idempotent [of demoReviewed 1] by simp

theorem deleteBook_cascades_witness:
  "verificationQuestions (snd (deleteBook demoReviewed 1)) = []
   \<and> reviews (snd (deleteBook demoReviewed 1)) = []
   \<and> readingLists (snd (deleteBook demoReviewed 1)) =
       [\<lparr>rl_id = 2, rl_userId = 1, rl_bookId = 2, rl_addedAt = 0, rl_progress = 10\<rparr>]
   \<and> likedBooks (snd (deleteBook demoReviewed 1)) =
       [\<lparr>lb_id = 1, lb_userId = 1, lb_bookId = 2, lb_likedAt = 0\<rparr>]"
proof -
  note inst = deleteBook_cascades [of demoReviewed 1]
  have q: "filter (\<lambda>q. q_bookId q \<noteq> 1) (verificationQuestions demoReviewed) = []"
    by (simp add: demoReviewed_rest demoStorage_def demoQuestion_def)
  have r: "filter (\<lambda>r. review_bookId r \<noteq> 1) (reviews demoReviewed) = []"
    by (simp add: demoReviewed_reviews)
  have e: "filter (\<lambda>e. rl_bookId e \<noteq> 1) (readingLists demoReviewed) =
       [\<lparr>rl_id = 2, rl_userId = 1, rl_bookId = 2, rl_addedAt = 0, rl_progress = 10\<rparr>]"
    by (simp add: demoReviewed_rest demoStorage_def)
  have l: "filter (\<lambda>e. lb_bookId e \<noteq> 1) (likedBooks demoReviewed) =
       [\<lparr>lb_id = 1, lb_userId = 1, lb_bookId = 2, lb_likedAt = 0\<rparr>]"
    by (simp add: demoReviewed_rest demoStorage_def)
  have all_ne: "filter p xs = xs" if "\<forall>x\<in>set xs. p x" for p :: "'a \<Rightarrow> bool" and xs
    using that by (simp add: filter_id_conv)
  from inst have "filter (\<lambda>q. q_bookId q \<noteq> 1) (verificationQuestions (snd (deleteBook demoReviewed 1)))
      = verificationQuestions (snd (deleteBook demoReviewed 1))"
    by (intro all_ne) blast
  with inst q have 1: "verificationQuestions (snd (deleteBook demoReviewed 1)) = []" by simp
  from inst have "filter (\<lambda>r. review_bookId r \<noteq> 1) (reviews (snd (deleteBook demoReviewed 1)))
      = reviews (snd (deleteBook demoReviewed 1))"
    by (intro all_ne) blast
  with inst r have 2: "reviews (snd (deleteBook demoReviewed 1)) = []" by simp
  from inst have "filter (\<lambda>e. rl_bookId e \<noteq> 1) (readingLists (snd (deleteBook demoReviewed 1)))
      = readingLists (snd (deleteBook demoReviewed 1))"
    by (intro all_ne) blast
  with inst e have 3: "readingLists (snd (deleteBook demoReviewed 1)) =
       [\<lparr>rl_id = 2, rl_userId = 1, rl_bookId = 2, rl_addedAt = 0, rl_progress = 10\<rparr>]" by simp
  from inst have "filter (\<lambda>e. lb_bookId e \<noteq> 1) (likedBooks (snd (deleteBook demoReviewed 1)))
      = likedBooks (snd (deleteBook demoReviewed 1))"
    by (intro all_ne) blast
  with inst l have 4: "likedBooks (snd (deleteBook demoReviewed 1)) =
       [\<lparr>lb_id = 1, lb_userId = 1, lb_bookId = 2, lb_likedAt = 0\<rparr>]" by simp
  from 1 2 3 4 show ?thesis by simp
qed

subsection \<open>The admission gate of review creation\<close>

lemma parse_valid_body:
  assumes "body_rating body = Some rating" "body_content body = Some content"
    "body_verified body = Some verified"
  shows "reviewWithVerificationSchema_parse body bookId userId =
     Some (verified, \<lparr>ir_bookId = bookId, ir_userId = userId,
                      ir_rating = rating, ir_content = content\<rparr>)"
  using assms by (simp add: reviewWithVerificationSchema_parse_def)

lemma createReviewHandler_admitted:
  assumes "session_userId sess = Some userId" "userId \<noteq> 0"
    and "body_rating body = Some rating" "body_content body = Some content"
    and "body_verified body = Some verified"
    and "verified \<or> sessionVerified sess bookId"
  shows "status (fst (createReviewHandler st sess bookId body now)) = 201
     \<and> reviews (snd (createReviewHandler st sess bookId body now)) =
         reviews st @ [\<lparr>review_id = newId (map review_id (reviews st)),
                        review_bookId = bookId, review_userId = userId,
                        review_rating = rating, review_content = content,
                        review_createdAt = now\<rparr>]"
  using assms
  by (auto simp: createReviewHandler_def parse_valid_body Let_def createReview_reviews)

lemma createReviewHandler_rejected:
  assumes "session_userId sess = Some userId" "userId \<noteq> 0"
    and "body_rating body = Some rating" "body_content body = Some content"
    and "body_verified body = Some verified"
    and "\<not> verified" "\<not> sessionVerified sess bookId"
  shows "createReviewHandler st sess bookId body now =
     (Response 403 (Message
        ''You must correctly answer the verification questions before reviewing this book''), st)"
  using assms by (simp add: createReviewHandler_def parse_valid_body Let_def)

lemma createReviewHandler_malformed:
  assumes "session_userId sess = Some userId" "userId \<noteq> 0"
    and "body_rating body = None \<or> body_content body = None \<or> body_verified body = None"
  shows "createReviewHandler st sess bookId body now = (Response 400 ValidationError, st)"
proof -
  from assms(3) have "reviewWithVerificationSchema_parse body bookId userId = None"
    by (auto simp: reviewWithVerificationSchema_parse_def split: option.splits)
  with assms(1,2) show ?thesis by (simp add: createReviewHandler_def Let_def)
qed

text \<open>
  Claim C1 as stated fails in two places. It names as a third ground of admission that
  the book has no question configured, but the handler never reads the questions: for
  book 2 of the example, which has none, a valid submission with the inline flag false
  from a session that has not verified the book is answered 403 and nothing is stored.
  And the schema requires the inline flag: a session that has verified book 1 and posts
  a review without the flag is answered 400, not admitted.
\<close>

theorem review_gate_rejects_admissible:
  "getVerificationQuestions demoStorage 2 = []
   \<and> requireAuth demoSession
   \<and> createReviewHandler demoStorage demoSession 2 (demoReviewBody 4 False) 7 =
       (Response 403 (Message
          ''You must correctly answer the verification questions before reviewing this book''),
        demoStorage)
   \<and> requireAuth demoVerifiedSession
   \<and> sessionVerified demoVerifiedSession 1
   \<and> createReviewHandler demoStorage demoVerifiedSession 1 demoUnflaggedBody 7 =
       (Response 400 ValidationError, demoStorage)"
proof -
  have q: "getVerificationQuestions demoStorage 2 = []"
    by (simp add: getVerificationQuestions_def demoStorage_def demoQuestion_def)
  have a: "requireAuth demoSession"
    by (simp add: requireAuth_def demoSession_def)
  have "\<not> sessionVerified demoSession 2"
    by (simp add: sessionVerified_def demoSession_def)
  then have r: "createReviewHandler demoStorage demoSession 2 (demoReviewBody 4 False) 7 =
       (Response 403 (Message
          ''You must correctly answer the verification questions before reviewing this book''),
        demoStorage)"
    by (intro createReviewHandler_rejected [of _ 1 _ 4 "''Worth reading''" False])
       (simp_all add: demoSession_def demoReviewBody_def)
  have a': "requireAuth demoVerifiedSession"
    by (simp add: requireAuth_def demoVerifiedSession_def demoSession_def)
  have v: "sessionVerified demoVerifiedSession 1"
    by (simp add: sessionVerified_def demoVerifiedSession_def demoSession_def)
  have m: "createReviewHandler demoStorage demoVerifiedSession 1 demoUnflaggedBody 7 =
       (Response 400 ValidationError, demoStorage)"
    by (rule createReviewHandler_malformed [of _ 1])
       (simp_all add: demoVerifiedSession_def demoSession_def demoUnflaggedBody_def)
  from q a r a' v m show ?thesis by simp
qed

text \<open>
  Claim C1, amended. For a submission of an authenticated session: when the body fails
  the schema, which requires a rating, a content and a boolean \<^verbatim>\<open>verified\<close>, the handler
  answers 400 and stores nothing; when the body passes and the inline flag is true or the
  session's verification state for the book is true, it answers 201 and appends the
  review; when the body passes, both are false and the book has at least one question
  configured, it answers 403 and stores nothing.
\<close>

theorem review_gate:
  assumes uid: "session_userId sess = Some userId" "userId \<noteq> 0"
  shows "(body_rating body = None \<or> body_content body = None \<or> body_verified body = None \<longrightarrow>
            createReviewHandler st sess bookId body now = (Response 400 ValidationError, st))
       \<and> (\<forall>rating content verified.
            body_rating body = Some rating \<and> body_content body = Some content \<and>
            body_verified body = Some verified \<longrightarrow>
            (verified \<or> sessionVerified sess bookId \<longrightarrow>
               status (fst (createReviewHandler st sess bookId body now)) = 201 \<and>
               reviews (snd (createReviewHandler st sess bookId body now)) =
                 reviews st @ [\<lparr>review_id = newId (map review_id (reviews st)),
                                review_bookId = bookId, review_userId = userId,
                                review_rating = rating, review_content = content,
                                review_createdAt = now\<rparr>])
          \<and> (\<not> verified \<and> \<not> sessionVerified sess bookId \<and>
             getVerificationQuestions st bookId \<noteq> [] \<longrightarrow>
               createReviewHandler st sess bookId body now =
                 (Response 403 (Message
                    ''You must correctly answer the verification questions before reviewing this book''),
                  st)))"
proof (intro conjI allI impI)
  assume "body_rating body = None \<or> body_content body = None \<or> body_verified body = None"
  with uid show "createReviewHandler st sess bookId body now = (Response 400 ValidationError, st)"
    by (rule createReviewHandler_malformed)
next
  fix rating content verified
  assume b: "body_rating body = Some rating \<and> body_content body = Some content \<and>
            body_verified body = Some verified"
    and v: "verified \<or> sessionVerified sess bookId"
  from b have b1: "body_rating body = Some rating" and b2: "body_content body = Some content"
    and b3: "body_verified body = Some verified" by simp_all
  from createReviewHandler_admitted [OF uid b1 b2 b3 v, of st now]
  show "status (fst (createReviewHandler st sess bookId body now)) = 201"
    and "reviews (snd (createReviewHandler st sess bookId body now)) =
                 reviews st @ [\<lparr>review_id = newId (map review_id (reviews st)),
                                review_bookId = bookId, review_userId = userId,
                                review_rating = rating, review_content = content,
                                review_createdAt = now\<rparr>]"
    by simp_all
next
  fix rating content verified
  assume b: "body_rating body = Some rating \<and> body_content body = Some content \<and>
            body_verified body = Some verified"
    and n: "\<not> verified \<and> \<not> sessionVerified sess bookId \<and>
             getVerificationQuestions st bookId \<noteq> []"
  from b have b1: "body_rating body = Some rating" and b2: "body_content body = Some content"
    and b3: "body_verified body = Some verified" by simp_all
  from n have n1: "\<not> verified" and n2: "\<not> sessionVerified sess bookId" by simp_all
  from createReviewHandler_rejected [OF uid b1 b2 b3 n1 n2, of st now]
  show "createReviewHandler st sess bookId body now =
                 (Response 403 (Message
                    ''You must correctly answer the verification questions before reviewing this book''),
                  st)" .
qed

theorem review_gate_witness:
  "status (fst (createReviewHandler demoStorage demoVerifiedSession 1 (demoReviewBody 4 False) 7)) = 201
   \<and> reviews (snd (createReviewHandler demoStorage demoVerifiedSession 1 (demoReviewBody 4 False) 7)) =
       [\<lparr>review_id = 1, review_bookId = 1, review_userId = 1, review_rating = 4,
         review_content = ''Worth reading'', review_createdAt = 7\<rparr>]
   \<and> status (fst (createReviewHandler demoStorage demoSession 2 (demoReviewBody 4 True) 7)) = 201
   \<and> createReviewHandler demoStorage demoSession 1 (demoReviewBody 4 False) 7 =
       (Response 403 (Message
          ''You must correctly answer the verification questions before reviewing this book''),
        demoStorage)
   \<and> createReviewHandler demoStorage demoSession 1 demoUnflaggedBody 7 =
       (Response 400 ValidationError, demoStorage)"
proof -
  have u1: "session_userId demoVerifiedSession = Some 1" and u2: "session_userId demoSession = Some 1"
    by (simp_all add: demoVerifiedSession_def demoSession_def)
  have nz: "(1::int) \<noteq> 0" by simp
  have b: "body_rating (demoReviewBody 4 v) = Some 4 \<and>
      body_content (demoReviewBody 4 v) = Some ''Worth reading'' \<and>
      body_verified (demoReviewBody 4 v) = Some v" for v
    by (simp add: demoReviewBody_def)
  have v1: "sessionVerified demoVerifiedSession 1"
    by (simp add: sessionVerified_def demoVerifiedSession_def demoSession_def)
  have v2: "\<not> sessionVerified demoSession 1"
    by (simp add: sessionVerified_def demoSession_def)
  have q1: "getVerificationQuestions demoStorage 1 \<noteq> []"
    by (simp add: getVerificationQuestions_def demoStorage_def demoQuestion_def)
  note valid1 = review_gate [OF u1 nz, where st = demoStorage and bookId = 1 and now = 7
      and body = "demoReviewBody 4 False", THEN conjunct2, THEN spec, THEN spec, THEN spec,
      THEN mp, OF b]
  from valid1 [THEN conjunct1] v1
  have one: "status (fst (createReviewHandler demoStorage demoVerifiedSession 1 (demoReviewBody 4 False) 7)) = 201
   \<and> reviews (snd (createReviewHandler demoStorage demoVerifiedSession 1 (demoReviewBody 4 False) 7)) =
       [\<lparr>review_id = 1, review_bookId = 1, review_userId = 1, review_rating = 4,
         review_content = ''Worth reading'', review_createdAt = 7\<rparr>]"
    by (simp add: demoStorage_def)
  note valid2 = review_gate [OF u2 nz, where st = demoStorage and bookId = 2 and now = 7
      and body = "demoReviewBody 4 True", THEN conjunct2, THEN spec, THEN spec, THEN spec,
      THEN mp, OF b]
  from valid2 [THEN conjunct1]
  have two: "status (fst (createReviewHandler demoStorage demoSession 2 (demoReviewBody 4 True) 7)) = 201"
    by simp
  note valid3 = review_gate [OF u2 nz, where st = demoStorage and bookId = 1 and now = 7
      and body = "demoReviewBody 4 False", THEN conjunct2, THEN spec, THEN spec, THEN spec,
      THEN mp, OF b]
  from valid3 [THEN conjunct2] v2 q1
  have three: "createReviewHandler demoStorage demoSession 1 (demoReviewBody 4 False) 7 =
       (Response 403 (Message
          ''You must correctly answer the verification questions before reviewing this book''),
        demoStorage)"
    by simp
  from review_gate [OF u2 nz, where st = demoStorage and bookId = 1 and now = 7
      and body = demoUnflaggedBody, THEN conjunct1]
  have four: "createReviewHandler demoStorage demoSession 1 demoUnflaggedBody 7 =
       (Response 400 ValidationError, demoStorage)"
    by (simp add: demoUnflaggedBody_def)
  from one two three four show ?thesis by simp
qed

subsection \<open>Ratings outside 1 to 5\<close>

text \<open>
  Claim C2. The schema of the server bounds no rating: a submission with rating 7 and
  the inline flag set is answered 201 and the review is stored with rating 7.
\<close>

theorem rating_out_of_range_is_stored:
  "status (fst (createReviewHandler demoStorage demoSession 1 (demoReviewBody 7 True) 7)) = 201
   \<and> reviews (snd (createReviewHandler demoStorage demoSession 1 (demoReviewBody 7 True) 7)) =
       [\<lparr>review_id = 1, review_bookId = 1, review_userId = 1, review_rating = 7,
         review_content = ''Worth reading'', review_createdAt = 7\<rparr>]"
proof -
  have "status (fst (createReviewHandler demoStorage demoSession 1 (demoReviewBody 7 True) 7)) = 201
     \<and> reviews (snd (createReviewHandler demoStorage demoSession 1 (demoReviewBody 7 True) 7)) =
         reviews demoStorage @ [\<lparr>review_id = newId (map review_id (reviews demoStorage)),
                        review_bookId = 1, review_userId = 1,
                        review_rating = 7, review_content = ''Worth reading'',
                        review_createdAt = 7\<rparr>]"
    by (rule createReviewHandler_admitted [of _ 1 _ 7 "''Worth reading''" True])
       (simp_all add: demoSession_def demoReviewBody_def)
  then show ?thesis by (simp add: demoStorage_def)
qed

subsection \<open>Login\<close>

lemma findOne_append:
  "findOne p (xs @ ys) = (case findOne p xs of None \<Rightarrow> findOne p ys | Some x \<Rightarrow> Some x)"
  by (induction xs) auto

lemma loginSchema_parse_valid:
  "loginSchema_parse isEmail \<lparr>body_email = Some email, body_password = Some password\<rparr> =
     (if isEmail email \<and> password \<noteq> [] then Some (email, password) else None)"
  by (cases password) (simp_all add: loginSchema_parse_def)

lemma login_admin_new:
  assumes "isEmail ''admin@gmail.com''" and "getUserByEmail st ''admin@gmail.com'' = None"
  shows "loginHandler isEmail st sess adminLogin now =
     (Response 200 (UserJson (omit_key ''password'' (user_doc (fst (createUser st
          \<lparr>iu_name = ''Admin User'', iu_email = ''admin@gmail.com'',
           iu_password = ''admin123'', iu_isAdmin = Some True\<rparr> now))))),
      snd (createUser st
          \<lparr>iu_name = ''Admin User'', iu_email = ''admin@gmail.com'',
           iu_password = ''admin123'', iu_isAdmin = Some True\<rparr> now),
      sess\<lparr>session_userId := Some (user_id (fst (createUser st
          \<lparr>iu_name = ''Admin User'', iu_email = ''admin@gmail.com'',
           iu_password = ''admin123'', iu_isAdmin = Some True\<rparr> now))),
           session_isAdmin := Some True,
           session_isVerified := Some Map.empty\<rparr>)"
  using assms by (simp add: loginHandler_def adminLogin_def loginSchema_parse_valid Let_def)

lemma login_admin_stored:
  assumes "isEmail ''admin@gmail.com''" and "getUserByEmail st ''admin@gmail.com'' = Some u"
  shows "loginHandler isEmail st sess adminLogin now =
     (Response 200 (UserJson (omit_key ''password'' (user_doc u))),
      st,
      initVerified (sess\<lparr>session_userId := Some (user_id u), session_isAdmin := Some True\<rparr>))"
  using assms by (simp add: loginHandler_def adminLogin_def loginSchema_parse_valid Let_def)

lemma login_regular:
  assumes "\<not> (email = ''admin@gmail.com'' \<and> password = ''admin123'')"
  shows "loginHandler isEmail st sess \<lparr>body_email = Some email, body_password = Some password\<rparr> now =
     (if isEmail email \<and> password \<noteq> [] then
        (case getUserByEmail st email of
           None \<Rightarrow> (Response 401 (Message ''Invalid email or password''), st, sess)
         | Some u \<Rightarrow>
             if user_password u \<noteq> password
             then (Response 401 (Message ''Invalid email or password''), st, sess)
             else (Response 200 (UserJson (omit_key ''password'' (user_doc u))), st,
                   initVerified (sess\<lparr>session_userId := Some (user_id u),
                                      session_isAdmin := Some (user_isAdmin u)\<rparr>)))
      else (Response 400 ValidationError, st, sess))"
  using assms by (auto simp: loginHandler_def loginSchema_parse_valid Let_def split: option.splits)

lemma initVerified_fields:
  "session_userId (initVerified s) = session_userId s
   \<and> session_isAdmin (initVerified s) = session_isAdmin s"
  by (simp add: initVerified_def split: option.splits)

lemma initVerified_keeps: "sessionVerified (initVerified s) b = sessionVerified s b"
  by (simp add: initVerified_def sessionVerified_def split: option.splits)

lemma createUser_found:
  assumes "getUserByEmail st (iu_email user) = None"
  shows "getUserByEmail (snd (createUser st user now)) (iu_email user) =
           Some (fst (createUser st user now))"
  using assms by (simp add: getUserByEmail_def createUser_def Let_def findOne_append)

lemma login_admin_succeeds:
  assumes e: "isEmail ''admin@gmail.com''"
  shows "status (fst (loginHandler isEmail st sess adminLogin now)) = 200
   \<and> session_isAdmin (snd (snd (loginHandler isEmail st sess adminLogin now))) = Some True
   \<and> (\<exists>u. getUserByEmail (fst (snd (loginHandler isEmail st sess adminLogin now)))
             ''admin@gmail.com'' = Some u
          \<and> session_userId (snd (snd (loginHandler isEmail st sess adminLogin now))) =
              Some (user_id u))"
proof (cases "getUserByEmail st ''admin@gmail.com''")
  case None
  have "getUserByEmail (snd (createUser st
          \<lparr>iu_name = ''Admin User'', iu_email = ''admin@gmail.com'',
           iu_password = ''admin123'', iu_isAdmin = Some True\<rparr> now)) ''admin@gmail.com'' =
        Some (fst (createUser st
          \<lparr>iu_name = ''Admin User'', iu_email = ''admin@gmail.com'',
           iu_password = ''admin123'', iu_isAdmin = Some True\<rparr> now))"
    using createUser_found [of st "\<lparr>iu_name = ''Admin User'', iu_email = ''admin@gmail.com'',
           iu_password = ''admin123'', iu_isAdmin = Some True\<rparr>" now] None by simp
  then show ?thesis by (simp add: login_admin_new [where isEmail = isEmail, OF e None])
next
  case (Some u)
  then show ?thesis by (simp add: login_admin_stored [where isEmail = isEmail, OF e Some] initVerified_fields)
qed

lemma login_admin_storage:
  assumes e: "isEmail ''admin@gmail.com''"
  shows "(getUserByEmail st ''admin@gmail.com'' = None \<longrightarrow>
        users (fst (snd (loginHandler isEmail st sess adminLogin now))) =
          users st @ [\<lparr>user_id = newId (map user_id (users st)), user_name = ''Admin User'',
                       user_email = ''admin@gmail.com'', user_password = ''admin123'',
                       user_isAdmin = True, user_isActive = True, user_joinedAt = now\<rparr>])
   \<and> (getUserByEmail st ''admin@gmail.com'' \<noteq> None \<longrightarrow>
        fst (snd (loginHandler isEmail st sess adminLogin now)) = st)"
proof (cases "getUserByEmail st ''admin@gmail.com''")
  case None
  then show ?thesis by (simp add: login_admin_new [where isEmail = isEmail, OF e None] createUser_def Let_def)
next
  case (Some u)
  then show ?thesis by (simp add: login_admin_stored [where isEmail = isEmail, OF e Some])
qed

lemma login_regular_status:
  assumes "\<not> (email = ''admin@gmail.com'' \<and> password = ''admin123'')"
  shows "status (fst (loginHandler isEmail st sess
             \<lparr>body_email = Some email, body_password = Some password\<rparr> now)) = 200
         \<longleftrightarrow> isEmail email \<and> password \<noteq> [] \<and>
             (\<exists>u. getUserByEmail st email = Some u \<and> user_password u = password)"
  by (simp add: login_regular [OF assms] split: option.splits)

text \<open>
  Claim C10. With the e-mail pattern accepting \<^verbatim>\<open>admin@gmail.com\<close>, a login with
  \<^verbatim>\<open>admin@gmail.com\<close> and \<^verbatim>\<open>admin123\<close> is answered 200 whatever is stored: the session
  becomes an administrator session of a stored user with that address, who is created
  when nobody has it and otherwise left as stored, password included. Every other pair of
  e-mail and password is answered 200 exactly when it passes the schema and the user
  found under the e-mail has that very password, so only when such a user is stored.
\<close>

theorem login_hardcoded_admin:
  assumes e: "isEmail ''admin@gmail.com''"
  shows "status (fst (loginHandler isEmail st sess adminLogin now)) = 200
   \<and> session_isAdmin (snd (snd (loginHandler isEmail st sess adminLogin now))) = Some True
   \<and> (\<exists>u. getUserByEmail (fst (snd (loginHandler isEmail st sess adminLogin now)))
             ''admin@gmail.com'' = Some u
          \<and> session_userId (snd (snd (loginHandler isEmail st sess adminLogin now))) =
              Some (user_id u))
   \<and> (getUserByEmail st ''admin@gmail.com'' = None \<longrightarrow>
        users (fst (snd (loginHandler isEmail st sess adminLogin now))) =
          users st @ [\<lparr>user_id = newId (map user_id (users st)), user_name = ''Admin User'',
                       user_email = ''admin@gmail.com'', user_password = ''admin123'',
                       user_isAdmin = True, user_isActive = True, user_joinedAt = now\<rparr>])
   \<and> (getUserByEmail st ''admin@gmail.com'' \<noteq> None \<longrightarrow>
        fst (snd (loginHandler isEmail st sess adminLogin now)) = st)
   \<and> (\<forall>email password. \<not> (email = ''admin@gmail.com'' \<and> password = ''admin123'') \<longrightarrow>
        (status (fst (loginHandler isEmail st sess
             \<lparr>body_email = Some email, body_password = Some password\<rparr> now)) = 200
         \<longleftrightarrow> isEmail email \<and> password \<noteq> [] \<and>
             (\<exists>u. getUserByEmail st email = Some u \<and> user_password u = password))
      \<and> (status (fst (loginHandler isEmail st sess
             \<lparr>body_email = Some email, body_password = Some password\<rparr> now)) = 200
         \<longrightarrow> (\<exists>u\<in>set (users st). user_email u = email \<and> user_password u = password)))"
proof -
  have stored: "\<exists>u\<in>set (users st). user_email u = email \<and> user_password u = password"
    if "getUserByEmail st email = Some u" "user_password u = password" for email password u
    using findOne_Some_holds [of "\<lambda>u. user_email u = email" "users st" u] that
    by (auto simp: getUserByEmail_def)
  have reg: "(status (fst (loginHandler isEmail st sess
             \<lparr>body_email = Some email, body_password = Some password\<rparr> now)) = 200
         \<longleftrightarrow> isEmail email \<and> password \<noteq> [] \<and>
             (\<exists>u. getUserByEmail st email = Some u \<and> user_password u = password))
      \<and> (status (fst (loginHandler isEmail st sess
             \<lparr>body_email = Some email, body_password = Some password\<rparr> now)) = 200
         \<longrightarrow> (\<exists>u\<in>set (users st). user_email u = email \<and> user_password u = password))"
    if "\<not> (email = ''admin@gmail.com'' \<and> password = ''admin123'')" for email password
    using login_regular_status [OF that, of isEmail st sess now] stored [of email _ password]
    by blast
  from login_admin_succeeds [where isEmail = isEmail, OF e, of st sess now] login_admin_storage [where isEmail = isEmail, OF e, of st sess now] reg
  show ?thesis by blast
qed

lemma demo_no_admin: "getUserByEmail demoStorage ''admin@gmail.com'' = None"
  by (simp add: getUserByEmail_def demoStorage_def demoReader_def)

lemma demo_reader: "getUserByEmail demoStorage ''reader@example.com'' = Some demoReader"
  by (simp add: getUserByEmail_def demoStorage_def demoReader_def)

lemma demoEmail_admin: "demoEmail ''admin@gmail.com''"
  by (simp add: demoEmail_def)

theorem login_hardcoded_admin_witness:
  "status (fst (loginHandler demoEmail demoStorage demoSession adminLogin 5)) = 200
   \<and> session_isAdmin (snd (snd (loginHandler demoEmail demoStorage demoSession adminLogin 5))) =
       Some True
   \<and> users (fst (snd (loginHandler demoEmail demoStorage demoSession adminLogin 5))) =
       [demoReader,
        \<lparr>user_id = 2, user_name = ''Admin User'', user_email = ''admin@gmail.com'',
         user_password = ''admin123'', user_isAdmin = True, user_isActive = True,
         user_joinedAt = 5\<rparr>]
   \<and> status (fst (loginHandler demoEmail demoStorage demoSession
        \<lparr>body_email = Some ''reader@example.com'', body_password = Some ''secret1''\<rparr> 5)) = 200
   \<and> status (fst (loginHandler demoEmail demoStorage demoSession
        \<lparr>body_email = Some ''reader@example.com'', body_password = Some ''admin123''\<rparr> 5)) \<noteq> 200"
proof -
  note inst = login_hardcoded_admin [where isEmail = demoEmail, OF demoEmail_admin,
      of demoStorage demoSession 5]
  note a1 = inst [THEN conjunct1]
  note a2 = inst [THEN conjunct2, THEN conjunct1]
  note created = inst [THEN conjunct2, THEN conjunct2, THEN conjunct2, THEN conjunct1, THEN mp,
      OF demo_no_admin]
  note others = inst [THEN conjunct2, THEN conjunct2, THEN conjunct2, THEN conjunct2,
      THEN conjunct2]
  from created
  have b: "users (fst (snd (loginHandler demoEmail demoStorage demoSession adminLogin 5))) =
       [demoReader,
        \<lparr>user_id = 2, user_name = ''Admin User'', user_email = ''admin@gmail.com'',
         user_password = ''admin123'', user_isAdmin = True, user_isActive = True,
         user_joinedAt = 5\<rparr>]"
    by (simp add: demoStorage_def demoReader_def)
  from others [THEN spec [where x = "''reader@example.com''"], THEN spec [where x = "''secret1''"]]
  have c: "status (fst (loginHandler demoEmail demoStorage demoSession
        \<lparr>body_email = Some ''reader@example.com'', body_password = Some ''secret1''\<rparr> 5)) = 200"
    by (simp add: demo_reader demoEmail_def demoReader_def)
  from others [THEN spec [where x = "''reader@example.com''"], THEN spec [where x = "''admin123''"]]
  have d: "status (fst (loginHandler demoEmail demoStorage demoSession
        \<lparr>body_email = Some ''reader@example.com'', body_password = Some ''admin123''\<rparr> 5)) \<noteq> 200"
    by (simp add: demo_reader demoEmail_def demoReader_def)
  from a1 a2 b c d show ?thesis by simp
qed

subsection \<open>The verification flag of a session\<close>

lemma verifyHandler_keeps_verified:
  assumes "sessionVerified sess b"
  shows "sessionVerified (snd (verifyHandler st sess bookId body_answers)) b"
  using assms
  by (auto simp: verifyHandler_def sessionVerified_def Let_def split: option.splits)

lemma verifyHandler_sets_verified:
  assumes "fst (verifyHandler st sess bookId body_answers) =
             Response 200 (VerifyResult True ''Answers verified successfully'')"
  shows "sessionVerified (snd (verifyHandler st sess bookId body_answers)) bookId"
  using assms
  by (auto simp: verifyHandler_def sessionVerified_def Let_def split: option.splits if_splits)

lemma sessionVerified_login_fields:
  "sessionVerified (sess\<lparr>session_userId := u, session_isAdmin := a\<rparr>) b = sessionVerified sess b"
  by (simp add: sessionVerified_def)

lemma login_stored_keeps_verified:
  assumes "sessionVerified sess b" and "getUserByEmail st ''admin@gmail.com'' \<noteq> None"
  shows "sessionVerified (snd (snd (loginHandler isEmail st sess body now))) b"
  using assms
  by (auto simp: loginHandler_def Let_def initVerified_keeps sessionVerified_login_fields
      split: option.splits)

lemma logout_clears: "\<not> sessionVerified (snd (logoutHandler sess)) b"
  by (simp add: logoutHandler_def sessionVerified_def)

text \<open>
  Claim C8. A verify request never clears the flag (\<open>verifyHandler_keeps_verified\<close>), and
  a login keeps it when the administrator is stored (\<open>login_stored_keeps_verified\<close>). The
  login branch that creates the administrator assigns \<^verbatim>\<open>req.session.isVerified = {}\<close>
  without the guard its two sibling branches have: the reader's session passes the quiz
  of book 1, logs in as the administrator while none is stored, and the flag is gone
  although the session was never destroyed; the next review without the inline flag is
  answered 403.
\<close>

theorem login_as_new_admin_resets_verification:
  "snd (verifyHandler demoStorage demoSession 1 (Some [1, 0, 2])) = demoVerifiedSession
   \<and> sessionVerified demoVerifiedSession 1
   \<and> status (fst (loginHandler demoEmail demoStorage demoVerifiedSession adminLogin 5)) = 200
   \<and> \<not> sessionVerified (snd (snd (loginHandler demoEmail demoStorage demoVerifiedSession adminLogin 5))) 1
   \<and> fst (createReviewHandler
        (fst (snd (loginHandler demoEmail demoStorage demoVerifiedSession adminLogin 5)))
        (snd (snd (loginHandler demoEmail demoStorage demoVerifiedSession adminLogin 5)))
        1 (demoReviewBody 4 False) 9) =
       Response 403 (Message
         ''You must correctly answer the verification questions before reviewing this book'')"
proof -
  have q: "getVerificationQuestions demoStorage 1 =
     [demoQuestion 1 ''Who?'' 1, demoQuestion 2 ''Where?'' 0, demoQuestion 3 ''When?'' 2]"
    by (simp add: getVerificationQuestions_def demoStorage_def demoQuestion_def)
  have auth: "requireAuth demoSession"
    by (simp add: requireAuth_def demoSession_def)
  have ok: "allCorrect [demoQuestion 1 ''Who?'' 1, demoQuestion 2 ''Where?'' 0,
      demoQuestion 3 ''When?'' 2] [1, 0, 2]"
    by (simp add: allCorrect_def every_def js_index_def demoQuestion_def)
  have 1: "snd (verifyHandler demoStorage demoSession 1 (Some [1, 0, 2])) = demoVerifiedSession"
    using auth ok
    by (simp add: verifyHandler_def q Let_def demoVerifiedSession_def) (simp add: demoSession_def)
  have 2: "sessionVerified demoVerifiedSession 1"
    by (simp add: sessionVerified_def demoVerifiedSession_def demoSession_def)
  note l = login_admin_new [where isEmail = demoEmail, OF demoEmail_admin demo_no_admin, of demoVerifiedSession 5]
  have 3: "status (fst (loginHandler demoEmail demoStorage demoVerifiedSession adminLogin 5)) = 200"
    by (simp add: l)
  have 4: "\<not> sessionVerified
      (snd (snd (loginHandler demoEmail demoStorage demoVerifiedSession adminLogin 5))) 1"
    by (simp add: l sessionVerified_def)
  have uid: "session_userId
      (snd (snd (loginHandler demoEmail demoStorage demoVerifiedSession adminLogin 5))) = Some 2"
    by (simp add: l) (simp add: createUser_def Let_def demoStorage_def demoReader_def)
  have "createReviewHandler
        (fst (snd (loginHandler demoEmail demoStorage demoVerifiedSession adminLogin 5)))
        (snd (snd (loginHandler demoEmail demoStorage demoVerifiedSession adminLogin 5)))
        1 (demoReviewBody 4 False) 9 =
       (Response 403 (Message
         ''You must correctly answer the verification questions before reviewing this book''),
        fst (snd (loginHandler demoEmail demoStorage demoVerifiedSession adminLogin 5)))"
    by (rule createReviewHandler_rejected [OF uid _ _ _ _ _ 4, where rating = 4
          and content = "''Worth reading''" and verified = False])
       (simp_all add: demoReviewBody_def)
  then have 5: "fst (createReviewHandler
        (fst (snd (loginHandler demoEmail demoStorage demoVerifiedSession adminLogin 5)))
        (snd (snd (loginHandler demoEmail demoStorage demoVerifiedSession adminLogin 5)))
        1 (demoReviewBody 4 False) 9) =
       Response 403 (Message
         ''You must correctly answer the verification questions before reviewing this book'')"
    by simp
  from 1 2 3 4 5 show ?thesis by simp
qed

end
